theory Spec2Isabelle
  imports Main "HOL-Library.Sublist"
begin

section \<open>Python strings\<close>

text \<open>
  A Python \<open>str\<close> is a sequence of code points. It is modelled as a \<open>string\<close> whose
  characters are the code points U+0000 to U+00FF, so \<open>length\<close> counts code points as
  Python's \<open>len\<close> does. On this range the classifications below are the ones of
  CPython: \<open>str.isspace\<close>, the \<open>\\s\<close> and \<open>\\d\<close> of \<open>re\<close>, the lower case of a
  character.
\<close>

abbreviation SECT :: char where
  "SECT \<equiv> CHR 0xA7"

definition code :: "char \<Rightarrow> nat" where
  "code c = of_char c"

definition is_space :: "char \<Rightarrow> bool" where
  "is_space c = ((9 \<le> code c \<and> code c \<le> 13) \<or> (28 \<le> code c \<and> code c \<le> 32)
                 \<or> code c = 133 \<or> code c = 160)"

definition is_digit :: "char \<Rightarrow> bool" where
  "is_digit c = (48 \<le> code c \<and> code c \<le> 57)"

definition is_ascii_upper :: "char \<Rightarrow> bool" where
  "is_ascii_upper c = (65 \<le> code c \<and> code c \<le> 90)"

definition is_ascii_lower :: "char \<Rightarrow> bool" where
  "is_ascii_lower c = (97 \<le> code c \<and> code c \<le> 122)"

text \<open>The lower case of a character: the ASCII capitals and the Latin-1 capitals (all
  of U+00C0 to U+00DE but the multiplication sign U+00D7) move up by 32.\<close>

definition lower_char :: "char \<Rightarrow> char" where
  "lower_char c =
     (if is_ascii_upper c \<or> (192 \<le> code c \<and> code c \<le> 222 \<and> code c \<noteq> 215)
      then char_of (code c + 32) else c)"

text \<open>
  \<open>str.lower\<close> of a whole string is not character by character on all of Unicode: the
  capital I with dot above, U+0130, is the one code point whose lower case has two code
  points, U+0069 and U+0307. Where this matters (the full-text search) the strings are
  read as lists of code points. \<open>lower_cp\<close> is CPython's table for the code points below
  U+0100 and for U+0130; the other code points are left as they are, which is
  CPython's value for the caseless ones only.
\<close>

definition ustr :: "string \<Rightarrow> nat list" where
  "ustr s = map code s"

definition latin1 :: "nat list \<Rightarrow> string" where
  "latin1 u = map char_of u"

definition lower_cp :: "nat \<Rightarrow> nat list" where
  "lower_cp c =
     (if c = 0x130 then [0x69, 0x307]
      else if (65 \<le> c \<and> c \<le> 90) \<or> (192 \<le> c \<and> c \<le> 222 \<and> c \<noteq> 215) then [c + 32]
      else [c])"

definition lower_u :: "nat list \<Rightarrow> nat list" where
  "lower_u s = concat (map lower_cp s)"

text \<open>\<open>str.strip()\<close> without argument removes leading and trailing whitespace.\<close>

definition lstrip :: "string \<Rightarrow> string" where
  "lstrip s = dropWhile is_space s"

definition rstrip :: "string \<Rightarrow> string" where
  "rstrip s = rev (dropWhile is_space (rev s))"

definition strip :: "string \<Rightarrow> string" where
  "strip s = rstrip (lstrip s)"

text \<open>\<open>s.startswith(p)\<close> is \<^const>\<open>prefix\<close>. \<open>s.replace(old, new)\<close> replaces the
  occurrences of \<open>old\<close> from left to right, without overlap; with an empty \<open>old\<close> Python
  puts \<open>new\<close> before every character and at the end.\<close>

fun replace_ne :: "string \<Rightarrow> string \<Rightarrow> string \<Rightarrow> string" where
  "replace_ne old new [] = []"
| "replace_ne old new (c # cs) =
     (if prefix old (c # cs) then new @ replace_ne old new (drop (length old - 1) cs)
      else c # replace_ne old new cs)"

definition replace :: "string \<Rightarrow> string \<Rightarrow> string \<Rightarrow> string" where
  "replace s old new =
     (if old = [] then new @ concat (map (\<lambda>c. c # new) s) else replace_ne old new s)"

text \<open>\<open>sub in s\<close> and \<open>s.find(sub)\<close>: the lowest offset at which \<open>sub\<close> occurs, Python's
  \<open>-1\<close> being \<open>None\<close>.\<close>

fun find_from :: "'a list \<Rightarrow> 'a list \<Rightarrow> nat \<Rightarrow> nat option" where
  "find_from sub [] i = (if sub = [] then Some i else None)"
| "find_from sub (c # cs) i =
     (if prefix sub (c # cs) then Some i else find_from sub cs (Suc i))"

definition find_str :: "'a list \<Rightarrow> 'a list \<Rightarrow> nat option" where
  "find_str s sub = find_from sub s 0"

definition contains :: "'a list \<Rightarrow> 'a list \<Rightarrow> bool" where
  "contains s sub = (find_str s sub \<noteq> None)"

text \<open>\<open>sep.join(parts)\<close>.\<close>

fun join :: "string \<Rightarrow> string list \<Rightarrow> string" where
  "join sep [] = []"
| "join sep [p] = p"
| "join sep (p # q # ps) = p @ sep @ join sep (q # ps)"

text \<open>\<open>s.split()\<close> without argument: the maximal runs of non-whitespace characters.\<close>

fun split_ws :: "string \<Rightarrow> string \<Rightarrow> string list" where
  "split_ws cur [] = (if cur = [] then [] else [cur])"
| "split_ws cur (c # cs) =
     (if is_space c then (if cur = [] then split_ws [] cs else cur # split_ws [] cs)
      else split_ws (cur @ [c]) cs)"

definition split :: "string \<Rightarrow> string list" where
  "split s = split_ws [] s"

text \<open>A slice \<open>s[a:b]\<close> with \<open>0 \<le> a\<close> and \<open>0 \<le> b\<close>; it is empty when \<open>b \<le> a\<close>.\<close>

definition slice :: "'a list \<Rightarrow> nat \<Rightarrow> nat \<Rightarrow> 'a list" where
  "slice s a b = take (b - a) (drop a s)"


section \<open>Python library: \<open>int\<close>, regular expressions, \<open>strptime\<close>\<close>

datatype error = ValueError | AttributeError string

subsection \<open>\<open>int(s)\<close>\<close>

text \<open>
  \<open>int\<close> of a string: optional whitespace, an optional sign, decimal digits with single
  underscores between them, optional whitespace; anything else raises \<open>ValueError\<close>, as
  does a literal of more than \<open>sys.get_int_max_str_digits()\<close> (4300) digits. The
  separators U+001C to U+001F are whitespace for \<open>str.strip\<close> but not for \<open>int\<close>.
\<close>

definition is_int_space :: "char \<Rightarrow> bool" where
  "is_int_space c = ((9 \<le> code c \<and> code c \<le> 13) \<or> code c = 32 \<or> code c = 133 \<or> code c = 160)"

definition int_max_str_digits :: nat where
  "int_max_str_digits = 4300"

definition digit_value :: "char \<Rightarrow> int" where
  "digit_value c = int (code c) - 48"

definition digits_value :: "string \<Rightarrow> int" where
  "digits_value ds = foldl (\<lambda>acc c. 10 * acc + digit_value c) 0 ds"

definition is_digit_or_us :: "char \<Rightarrow> bool" where
  "is_digit_or_us c = (is_digit c \<or> c = CHR ''_'')"

definition py_int :: "string \<Rightarrow> error + int" where
  "py_int s =
     (let t = dropWhile is_int_space s;
          neg = (case t of [] \<Rightarrow> False | c # _ \<Rightarrow> c = CHR ''-'');
          u = (case t of [] \<Rightarrow> [] | c # r \<Rightarrow> if c = CHR ''-'' \<or> c = CHR ''+'' then r else t);
          body = takeWhile is_digit_or_us u;
          rest = dropWhile is_digit_or_us u;
          ds = filter is_digit body
      in if body = [] \<or> hd body = CHR ''_'' \<or> last body = CHR ''_'' \<or> contains body ''__''
            \<or> int_max_str_digits < length ds \<or> \<not> list_all is_int_space rest
         then Inl ValueError
         else Inr (if neg then - digits_value ds else digits_value ds))"

subsection \<open>Regular expressions\<close>

text \<open>
  The patterns of the program use literals, character classes, \<open>\\d\<close>, \<open>\\s\<close>,
  concatenation, alternation, the greedy \<open>?\<close>, \<open>*\<close>, \<open>+\<close> and \<open>{2,}\<close>, and
  capturing groups. \<open>rmatch\<close> is the backtracking matcher of \<open>re\<close>: it returns every way
  the pattern matches a prefix of the input, as the remaining input and the groups
  captured, in the order the matcher tries them; the first one is the match \<open>re\<close>
  reports. The flag \<open>ic\<close> is \<open>re.IGNORECASE\<close>.
\<close>

datatype regex =
    Lit char
  | Cls "(char \<times> char) list"
  | Digit
  | Space
  | Seq regex regex
  | Alt regex regex
  | Opt regex
  | Star regex
  | Group nat regex

type_synonym groups = "(nat \<times> string) list"

definition upper_char :: "char \<Rightarrow> char" where
  "upper_char c =
     (if is_ascii_lower c \<or> (224 \<le> code c \<and> code c \<le> 254 \<and> code c \<noteq> 247)
      then char_of (code c - 32) else c)"

definition in_range :: "char \<Rightarrow> char \<times> char \<Rightarrow> bool" where
  "in_range c r = (code (fst r) \<le> code c \<and> code c \<le> code (snd r))"

definition in_class :: "bool \<Rightarrow> (char \<times> char) list \<Rightarrow> char \<Rightarrow> bool" where
  "in_class ic rs c =
     (list_ex (in_range c) rs
      \<or> (ic \<and> (list_ex (in_range (lower_char c)) rs \<or> list_ex (in_range (upper_char c)) rs)))"

definition lit_eq :: "bool \<Rightarrow> char \<Rightarrow> char \<Rightarrow> bool" where
  "lit_eq ic c x = (x = c \<or> (ic \<and> lower_char x = lower_char c))"

function (sequential) rmatch ::
  "bool \<Rightarrow> regex \<Rightarrow> string \<Rightarrow> groups \<Rightarrow> (string \<times> groups) list" where
  "rmatch ic (Lit c) s g =
     (case s of [] \<Rightarrow> [] | x # xs \<Rightarrow> if lit_eq ic c x then [(xs, g)] else [])"
| "rmatch ic (Cls rs) s g =
     (case s of [] \<Rightarrow> [] | x # xs \<Rightarrow> if in_class ic rs x then [(xs, g)] else [])"
| "rmatch ic Digit s g =
     (case s of [] \<Rightarrow> [] | x # xs \<Rightarrow> if is_digit x then [(xs, g)] else [])"
| "rmatch ic Space s g =
     (case s of [] \<Rightarrow> [] | x # xs \<Rightarrow> if is_space x then [(xs, g)] else [])"
| "rmatch ic (Seq a b) s g =
     concat (map (\<lambda>(s', g'). rmatch ic b s' g') (rmatch ic a s g))"
| "rmatch ic (Alt a b) s g = rmatch ic a s g @ rmatch ic b s g"
| "rmatch ic (Opt a) s g = rmatch ic a s g @ [(s, g)]"
| "rmatch ic (Star a) s g =
     concat (map (\<lambda>(s', g'). if length s' < length s then rmatch ic (Star a) s' g' else [])
                 (rmatch ic a s g)) @ [(s, g)]"
| "rmatch ic (Group k a) s g =
     map (\<lambda>(s', g'). (s', (k, take (length s - length s') s) # g')) (rmatch ic a s g)"
  by pat_completeness auto
termination
  by (relation "measures [\<lambda>(ic, r, s, g). size r, \<lambda>(ic, r, s, g). length s]") auto

text \<open>\<open>a+\<close> is \<open>aa*\<close>; a word is the sequence of its letters.\<close>

definition Plus :: "regex \<Rightarrow> regex" where
  "Plus a = Seq a (Star a)"

fun Seqs :: "regex \<Rightarrow> regex list \<Rightarrow> regex" where
  "Seqs r [] = r"
| "Seqs r (q # qs) = Seq r (Seqs q qs)"

fun Word :: "char \<Rightarrow> string \<Rightarrow> regex" where
  "Word c [] = Lit c"
| "Word c (d # ds) = Seq (Lit c) (Word d ds)"

text \<open>\<open>re.match\<close> tries the pattern at the start of the input; \<open>re.search\<close> tries every
  start offset from the left and reports the first offset with a match. A match is the
  input left after it and its groups; \<open>m.group(k)\<close> is the last capture of group \<open>k\<close>.\<close>

definition re_match :: "bool \<Rightarrow> regex \<Rightarrow> string \<Rightarrow> (string \<times> groups) option" where
  "re_match ic r s = (case rmatch ic r s [] of [] \<Rightarrow> None | m # _ \<Rightarrow> Some m)"

fun re_search :: "bool \<Rightarrow> regex \<Rightarrow> string \<Rightarrow> (string \<times> groups) option" where
  "re_search ic r [] = re_match ic r []"
| "re_search ic r (c # cs) =
     (case re_match ic r (c # cs) of None \<Rightarrow> re_search ic r cs | Some m \<Rightarrow> Some m)"

definition group :: "groups \<Rightarrow> nat \<Rightarrow> string option" where
  "group g k = map_of g k"

subsection \<open>\<open>datetime.strptime(s, "%Y-%m-%d").date()\<close>\<close>

record date =
  year :: int
  month :: int
  day :: int

text \<open>\<open>strptime\<close> matches the pattern that \<open>_strptime\<close> builds for the format
  (four digits; \<open>1[0-2]|0[1-9]|[1-9]\<close>; \<open>3[0-1]|[1-2]\\d|0[1-9]|[1-9]| [1-9]\<close>),
  requires the match to end at the end of the input, and then builds the date, which
  raises \<open>ValueError\<close> unless the day exists in the calendar and the year is not 0.\<close>

definition ymd_pattern :: regex where
  "ymd_pattern =
     Seqs (Group 1 (Seqs Digit [Digit, Digit, Digit]))
      [Lit CHR ''-'',
       Group 2 (Alt (Seq (Lit CHR ''1'') (Cls [(CHR ''0'', CHR ''2'')]))
               (Alt (Seq (Lit CHR ''0'') (Cls [(CHR ''1'', CHR ''9'')]))
                    (Cls [(CHR ''1'', CHR ''9'')]))),
       Lit CHR ''-'',
       Group 3 (Alt (Seq (Lit CHR ''3'') (Cls [(CHR ''0'', CHR ''1'')]))
               (Alt (Seq (Cls [(CHR ''1'', CHR ''2'')]) Digit)
               (Alt (Seq (Lit CHR ''0'') (Cls [(CHR ''1'', CHR ''9'')]))
               (Alt (Cls [(CHR ''1'', CHR ''9'')])
                    (Seq (Lit CHR '' '') (Cls [(CHR ''1'', CHR ''9'')]))))))]"

definition is_leap :: "int \<Rightarrow> bool" where
  "is_leap y = (y mod 4 = 0 \<and> (y mod 100 \<noteq> 0 \<or> y mod 400 = 0))"

definition days_in_month :: "int \<Rightarrow> int \<Rightarrow> int" where
  "days_in_month y m =
     (if m = 2 then (if is_leap y then 29 else 28)
      else if m = 4 \<or> m = 6 \<or> m = 9 \<or> m = 11 then 30 else 31)"

definition make_date :: "int \<Rightarrow> int \<Rightarrow> int \<Rightarrow> error + date" where
  "make_date y m d =
     (if 1 \<le> y \<and> y \<le> 9999 \<and> 1 \<le> m \<and> m \<le> 12 \<and> 1 \<le> d \<and> d \<le> days_in_month y m
      then Inr \<lparr>year = y, month = m, day = d\<rparr> else Inl ValueError)"

definition group_int :: "groups \<Rightarrow> nat \<Rightarrow> int" where
  "group_int g k = (case group g k of None \<Rightarrow> 0 | Some t \<Rightarrow> digits_value (strip t))"

definition strptime_ymd :: "string \<Rightarrow> error + date" where
  "strptime_ymd s =
     (case re_match True ymd_pattern s of
        None \<Rightarrow> Inl ValueError
      | Some (rest, g) \<Rightarrow>
          if rest \<noteq> [] then Inl ValueError
          else make_date (group_int g 1) (group_int g 2) (group_int g 3))"


section \<open>The element tree (\<open>xml.etree.ElementTree\<close>)\<close>

text \<open>
  An element has a tag, an attribute dictionary, the text before its first child, the
  one after its end tag (its tail) and its children in document order. \<open>text\<close> and
  \<open>tail\<close> are \<open>None\<close> or a string.
\<close>

datatype Element = Element (el_tag: string) (el_attrib: "(string \<times> string) list")
  (el_text: "string option") (el_tail: "string option") (el_children: "Element list")

text \<open>\<open>elem.get(name)\<close>, \<open>elem.get(name, default)\<close>, \<open>elem.find(tag)\<close> and
  \<open>elem.findall(tag)\<close> for a plain tag name: the direct children with that tag.\<close>

definition get :: "Element \<Rightarrow> string \<Rightarrow> string option" where
  "get elem name = map_of (el_attrib elem) name"

definition get_default :: "Element \<Rightarrow> string \<Rightarrow> string \<Rightarrow> string" where
  "get_default elem name d = (case get elem name of None \<Rightarrow> d | Some v \<Rightarrow> v)"

definition findall :: "Element \<Rightarrow> string \<Rightarrow> Element list" where
  "findall elem t = filter (\<lambda>c. el_tag c = t) (el_children elem)"

definition find :: "Element \<Rightarrow> string \<Rightarrow> Element option" where
  "find elem t = List.find (\<lambda>c. el_tag c = t) (el_children elem)"

text \<open>Truth of an optional string: \<open>None\<close> and the empty string are false.\<close>

definition truthy :: "string option \<Rightarrow> bool" where
  "truthy t = (case t of None \<Rightarrow> False | Some s \<Rightarrow> s \<noteq> [])"

section \<open>The document model (\<open>models.py\<close>)\<close>

record Anlageabgabe =
  anlagedat :: "string option"
  dokst :: "string option"
  abgabedat :: "string option"

record Fundstelle =
  fundstelle_typ :: "string option"
  periodikum :: "string option"
  zitstelle :: "string option"
  anlageabgabe :: "Anlageabgabe option"

record Standangabe =
  checked :: "string option"
  standtyp :: "string option"
  standkommentar :: "string option"

record Gliederungseinheit =
  gliederungskennzahl :: "string option"
  gliederungsbez :: "string option"
  gliederungstitel :: "string option"

record AusfertigungsDatum =
  manuell :: string
  datum :: "date option"

record Metadaten =
  jurabk :: "string list"
  amtabk :: "string option"
  ausfertigung_datum :: "AusfertigungsDatum option"
  fundstelle :: "Fundstelle list"
  kurzue :: "string option"
  langue :: "string option"
  standangabe :: "Standangabe list"
  enbez :: "string option"
  titel :: "string option"
  gliederungseinheit :: "Gliederungseinheit option"

record IMG =
  img_src :: string
  img_alt :: "string option"
  img_title :: "string option"
  img_orient :: "string option"
  img_pos :: "string option"
  img_align :: "string option"
  img_size :: "string option"
  img_width :: "string option"
  img_height :: "string option"
  img_units :: "string option"
  img_type :: "string option"

record FILE =
  file_src :: string
  file_preview :: "string option"
  file_type :: "string option"
  file_title :: "string option"

record DT =
  dt_id :: "string option"
  dt_text :: "string option"

record Colspec =
  colspec_colname :: "string option"
  colspec_colnum :: "int option"
  colspec_colwidth :: "string option"
  colspec_align :: "string option"
  colspec_colsep :: "string option"
  colspec_rowsep :: "string option"

record FnR =
  fnr_id :: string

record FnArea =
  fnarea_line :: string
  fnarea_size :: string
  fn_refs :: "FnR list"

record Kommentar =
  kommentar_typ :: string
  kommentar_text :: "string option"

record Pre =
  pre_text :: "string option"

text \<open>
  The classes that hold content elements take the type of content elements as a
  parameter; \<open>ContentElement\<close> closes the recursion. It is the union
  \<open>Union[str, P, DL, Table, IMG, FILE, FnArea, TOC, Kommentar, Pre, FormatElement,
  Revision]\<close>. The class \<open>P\<close> has the three fields \<open>id\<close>, \<open>content\<close> and \<open>raw_text\<close>.
\<close>

datatype 'c P = P (p_id: "string option") (p_content: "'c list") (p_raw_text: "string option")

datatype 'c Revision = Revision (revision_id: "string option")
  (revision_postfix: "string option") (revision_content: "'c list")

datatype 'c LA = LA (la_id: "string option") (la_size: "string option")
  (la_value: "string option") (la_text: "string option") (la_children: "'c list")

datatype 'c DD = DD (dd_id: "string option") (dd_la: "'c LA option")
  (dd_revisions: "'c Revision list")

datatype 'c DLItem = DLItem (item_dt: DT) (item_dd: "'c DD")

datatype 'c DL = DL (dl_id: "string option") (dl_indent: "string option")
  (dl_font: "string option") (dl_type: "string option") (dl_items: "'c DLItem list")

datatype 'c Entry = Entry (entry_id: "string option") (entry_align: "string option")
  (entry_valign: "string option") (entry_colname: "string option")
  (entry_namest: "string option") (entry_nameend: "string option")
  (entry_morerows: "int option") (entry_colsep: "string option")
  (entry_rowsep: "string option") (entry_content: "'c list")

datatype 'c Row = Row (row_id: "string option") (row_rowsep: "string option")
  (row_valign: "string option") (row_entries: "'c Entry list")

datatype 'c THead = THead (thead_rows: "'c Row list")

datatype 'c TBody = TBody (tbody_rows: "'c Row list")

datatype 'c TFoot = TFoot (tfoot_rows: "'c Row list")

datatype 'c TGroup = TGroup (tgroup_cols: int) (tgroup_colspecs: "Colspec list")
  (tgroup_thead: "'c THead option") (tgroup_tbody: "'c TBody")
  (tgroup_tfoot: "'c TFoot option")

datatype 'c Table = Table (table_id: "string option") (table_frame: "string option")
  (table_colsep: "string option") (table_rowsep: "string option")
  (table_title: "string option") (table_tgroups: "'c TGroup list")

datatype 'c TOC = TOC (toc_id: "string option") (toc_content: "'c list")

datatype 'c FormatElement = FormatElement (format_tag: string) (format_id: "string option")
  (format_cls: "string option") (format_text: "string option")
  (format_children: "'c list")

datatype ContentElement =
    Str string
  | CP "ContentElement P"
  | CDL "ContentElement DL"
  | CTable "ContentElement Table"
  | CIMG IMG
  | CFILE FILE
  | CFnArea FnArea
  | CTOC "ContentElement TOC"
  | CKommentar Kommentar
  | CPre Pre
  | CFormat "ContentElement FormatElement"
  | CRevision "ContentElement Revision"

record Footnote =
  footnote_id :: string
  footnote_prefix :: "string option"
  footnote_fn_z :: "string option"
  footnote_postfix :: "string option"
  footnote_pos :: "string option"
  footnote_group :: "string option"
  footnote_content :: "ContentElement list"

record Footnotes =
  footnotes_list :: "Footnote list"

record Content =
  content_id :: "string option"
  content_elements :: "ContentElement list"
  content_raw_text :: "string option"

record Text =
  text_format :: "string option"
  text_toc :: "ContentElement TOC option"
  text_content :: "Content option"
  text_footnotes :: "Footnotes option"

record Fussnoten =
  fussnoten_format :: "string option"
  fussnoten_toc :: "ContentElement TOC option"
  fussnoten_content :: "Content option"
  fussnoten_footnotes :: "Footnotes option"

record Textdaten =
  textdaten_text :: "Text option"
  textdaten_fussnoten :: "Fussnoten option"

record Norm =
  norm_builddate :: "string option"
  norm_doknr :: "string option"
  metadaten :: "Metadaten option"
  textdaten :: "Textdaten option"

record Dokumente =
  builddate :: "string option"
  doknr :: "string option"
  normen :: "Norm list"


section \<open>The parser (\<open>parser.py\<close>)\<close>

subsection \<open>Exceptions\<close>

text \<open>A computation that may raise returns \<open>error + 'a\<close>. \<open>bind_err\<close> runs the next
  statement unless an exception was raised; \<open>for_each\<close> is a list comprehension whose
  body may raise.\<close>

definition bind_err :: "error + 'a \<Rightarrow> ('a \<Rightarrow> error + 'b) \<Rightarrow> error + 'b" where
  "bind_err m f = (case m of Inl e \<Rightarrow> Inl e | Inr x \<Rightarrow> f x)"

fun for_each :: "('a \<Rightarrow> error + 'b) \<Rightarrow> 'a list \<Rightarrow> error + 'b list" where
  "for_each f [] = Inr []"
| "for_each f (x # xs) = bind_err (f x) (\<lambda>y. bind_err (for_each f xs) (\<lambda>ys. Inr (y # ys)))"

lemma bind_err_cong [fundef_cong]:
  "m = m' \<Longrightarrow> (\<And>x. m' = Inr x \<Longrightarrow> f x = f' x) \<Longrightarrow> bind_err m f = bind_err m' f'"
  by (auto simp: bind_err_def split: sum.splits)

lemma for_each_cong [fundef_cong]:
  "xs = ys \<Longrightarrow> (\<And>x. x \<in> set ys \<Longrightarrow> f x = g x) \<Longrightarrow> for_each f xs = for_each g ys"
  by (induction ys arbitrary: xs) (auto simp: bind_err_def split: sum.splits)

lemma size_child [termination_simp]:
  "c \<in> set (el_children e) \<Longrightarrow> size c < size e"
  by (cases e) (auto simp: less_Suc_eq_le size_list_estimation')

lemma size_children [termination_simp]:
  "size_list size (el_children e) < size e"
  by (cases e) simp

lemma size_findall [termination_simp]:
  "c \<in> set (findall e t) \<Longrightarrow> size c < size e"
  by (simp add: findall_def size_child)

lemma size_find [termination_simp]:
  "find e t = Some c \<Longrightarrow> size c < size e"
  by (auto simp: find_def find_Some_iff intro: size_child)

subsection \<open>\<open>_normalize_whitespace\<close>\<close>

lemma find_from_None_shift: "find_from sub s i = None \<Longrightarrow> find_from sub s j = None"
  by (induction s arbitrary: i j) (auto split: if_splits)

lemma contains_Cons:
  "contains (c # cs) sub = (prefix sub (c # cs) \<or> contains cs sub)"
proof -
  have "(find_from sub cs (Suc 0) = None) = (find_from sub cs 0 = None)"
    using find_from_None_shift[of sub cs 0 "Suc 0"] find_from_None_shift[of sub cs "Suc 0" 0]
    by blast
  then show ?thesis
    by (simp add: contains_def find_str_def del: not_None_eq)
qed

lemma replace_ne_length_le:
  "length new \<le> length old \<Longrightarrow> old \<noteq> [] \<Longrightarrow> length (replace_ne old new s) \<le> length s"
proof (induction old new s rule: replace_ne.induct)
  case (1 old new)
  then show ?case by simp
next
  case (2 old new c cs)
  show ?case
  proof (cases "prefix old (c # cs)")
    case True
    then have len: "length old \<le> Suc (length cs)"
      using prefix_length_le by fastforce
    have "length (replace_ne old new (drop (length old - 1) cs)) \<le> length cs - (length old - 1)"
      using 2 True by simp
    with len 2 True show ?thesis by (cases old) auto
  next
    case False
    with 2 show ?thesis by simp
  qed
qed

lemma replace_ne_length_less:
  "length new < length old \<Longrightarrow> contains s old \<Longrightarrow> length (replace_ne old new s) < length s"
proof (induction old new s rule: replace_ne.induct)
  case (1 old new)
  then show ?case by (auto simp: contains_def find_str_def split: if_splits)
next
  case (2 old new c cs)
  show ?case
  proof (cases "prefix old (c # cs)")
    case True
    then have len: "length old \<le> Suc (length cs)"
      using prefix_length_le by fastforce
    have "length (replace_ne old new (drop (length old - 1) cs)) \<le> length cs - (length old - 1)"
      using replace_ne_length_le[of new old "drop (length old - 1) cs"] 2(3)
      by (cases old) auto
    with len 2(3) True show ?thesis by (cases old) auto
  next
    case False
    with 2 show ?thesis by (simp add: contains_Cons)
  qed
qed

lemma replace_shorter:
  "contains text ''  '' \<Longrightarrow> length (replace text ''  '' '' '') < length text"
  by (simp add: replace_def replace_ne_length_less)

text \<open>The loop \<open>while "  " in text: text = text.replace("  ", " ")\<close>: every round
  shortens the text, so it ends.\<close>

function collapse_spaces :: "string \<Rightarrow> string" where
  "collapse_spaces text =
     (if contains text ''  '' then collapse_spaces (replace text ''  '' '' '') else text)"
  by pat_completeness auto
termination
  by (relation "measure length") (auto simp: replace_shorter)

declare collapse_spaces.simps [simp del]

definition normalize_whitespace :: "string \<Rightarrow> string" where
  "normalize_whitespace text =
     collapse_spaces
       (replace (replace (replace (replace text [CHR 0x0D, CHR 0x0A] '' '') [CHR 0x0D] '' '')
                         [CHR 0x0A] '' '') [CHR 0x09] '' '')"

subsection \<open>Attribute and text helpers\<close>

text \<open>\<open>_get_attr\<close> returns the first of the named attributes that is present and not
  empty.\<close>

definition get_attr :: "Element \<Rightarrow> string list \<Rightarrow> string option" where
  "get_attr elem names =
     (case filter truthy (map (get elem) names) of [] \<Rightarrow> None | v # _ \<Rightarrow> v)"

definition get_text :: "Element \<Rightarrow> string \<Rightarrow> string option" where
  "get_text elem t =
     (case find elem t of
        None \<Rightarrow> None
      | Some child \<Rightarrow> if truthy (el_text child) then Some (strip (the (el_text child))) else None)"

definition get_all_text :: "Element \<Rightarrow> string \<Rightarrow> string list" where
  "get_all_text elem t =
     map (\<lambda>child. strip (the (el_text child)))
         (filter (\<lambda>child. truthy (el_text child) \<and> strip (the (el_text child)) \<noteq> [])
                 (findall elem t))"

definition parse_date :: "string option \<Rightarrow> date option" where
  "parse_date date_str =
     (if \<not> truthy date_str then None
      else case strptime_ymd (the date_str) of Inl e \<Rightarrow> None | Inr d \<Rightarrow> Some d)"

text \<open>A raw attribute is kept when it is one of the values of the field's \<open>Literal\<close>
  type; otherwise the field keeps its initial value.\<close>

definition literal_or :: "'a \<Rightarrow> (string \<Rightarrow> 'a) \<Rightarrow> string option \<Rightarrow> string list \<Rightarrow> 'a" where
  "literal_or initial keep raw allowed =
     (case raw of None \<Rightarrow> initial | Some v \<Rightarrow> if v \<in> set allowed then keep v else initial)"

definition is_rec_sup :: "Element \<Rightarrow> bool" where
  "is_rec_sup child = (el_tag child = ''SUP'' \<and>
     (get child ''class'' = Some ''Rec'' \<or> get child ''Class'' = Some ''Rec''))"

text \<open>\<open>if t: parts.append(t)\<close> for an optional string \<open>t\<close>.\<close>

definition if_text :: "string option \<Rightarrow> string list" where
  "if_text t = (if truthy t then [the t] else [])"

fun extract_raw_text :: "Element \<Rightarrow> string"
  and raw_text_parts :: "Element list \<Rightarrow> string list" where
  "extract_raw_text elem =
     (let text_parts = if_text (el_text elem) @ raw_text_parts (el_children elem);
          joined = join '' '' text_parts;
          joined = join '' '' (split joined)
      in strip joined)"
| "raw_text_parts [] = []"
| "raw_text_parts (child # rest) =
     (if is_rec_sup child then if_text (el_tail child)
      else extract_raw_text child # if_text (el_tail child)) @ raw_text_parts rest"

subsection \<open>Metadata\<close>

definition parse_anlageabgabe :: "Element option \<Rightarrow> Anlageabgabe option" where
  "parse_anlageabgabe e =
     (case e of None \<Rightarrow> None
      | Some elem \<Rightarrow> Some \<lparr>anlagedat = get_text elem ''anlagedat'', dokst = get_text elem ''dokst'',
                           abgabedat = get_text elem ''abgabedat''\<rparr>)"

definition parse_fundstelle :: "Element option \<Rightarrow> Fundstelle option" where
  "parse_fundstelle e =
     (case e of None \<Rightarrow> None
      | Some elem \<Rightarrow> Some
          \<lparr>fundstelle_typ = literal_or None Some (get elem ''typ'') [''amtlich'', ''nichtamtlich''],
           periodikum = get_text elem ''periodikum'', zitstelle = get_text elem ''zitstelle'',
           anlageabgabe = parse_anlageabgabe (find elem ''anlageabgabe'')\<rparr>)"

definition parse_standangabe :: "Element option \<Rightarrow> Standangabe option" where
  "parse_standangabe e =
     (case e of None \<Rightarrow> None
      | Some elem \<Rightarrow> Some
          \<lparr>checked = literal_or None Some (get elem ''checked'') [''ja'', ''nein''],
           standtyp = get_text elem ''standtyp'',
           standkommentar = get_text elem ''standkommentar''\<rparr>)"

definition parse_gliederungseinheit :: "Element option \<Rightarrow> Gliederungseinheit option" where
  "parse_gliederungseinheit e =
     (case e of None \<Rightarrow> None
      | Some elem \<Rightarrow> Some
          \<lparr>gliederungskennzahl = get_text elem ''gliederungskennzahl'',
           gliederungsbez = get_text elem ''gliederungsbez'',
           gliederungstitel = get_text elem ''gliederungstitel''\<rparr>)"

definition parse_ausfertigung_datum :: "Element option \<Rightarrow> AusfertigungsDatum option" where
  "parse_ausfertigung_datum e =
     (case e of None \<Rightarrow> None
      | Some elem \<Rightarrow>
          (let manuell_raw = (if truthy (get elem ''manuell'') then get elem ''manuell''
                              else Some ''nein'')
           in Some \<lparr>manuell = literal_or ''nein'' id manuell_raw [''ja'', ''nein''],
                    datum = (if truthy (el_text elem) then parse_date (el_text elem) else None)\<rparr>))"

text \<open>The list comprehensions over \<open>findall\<close> keep the results that are not \<open>None\<close>;
  \<open>parse_fundstelle\<close> and \<open>parse_standangabe\<close> of an element never are.\<close>

definition some_list :: "'a option list \<Rightarrow> 'a list" where
  "some_list xs = concat (map (\<lambda>x. case x of None \<Rightarrow> [] | Some v \<Rightarrow> [v]) xs)"

definition parse_metadaten :: "Element option \<Rightarrow> Metadaten option" where
  "parse_metadaten e =
     (case e of None \<Rightarrow> None
      | Some elem \<Rightarrow>
          (let fundstelle_list = some_list (map (\<lambda>f. parse_fundstelle (Some f)) (findall elem ''fundstelle''));
               standangabe_list = some_list (map (\<lambda>s. parse_standangabe (Some s)) (findall elem ''standangabe''))
           in Some
             \<lparr>jurabk = get_all_text elem ''jurabk'',
              amtabk = get_text elem ''amtabk'',
              ausfertigung_datum = parse_ausfertigung_datum (find elem ''ausfertigung-datum''),
              fundstelle = fundstelle_list,
              kurzue = get_text elem ''kurzue'',
              langue = get_text elem ''langue'',
              standangabe = standangabe_list,
              enbez = get_text elem ''enbez'',
              titel = get_text elem ''titel'',
              gliederungseinheit = parse_gliederungseinheit (find elem ''gliederungseinheit'')\<rparr>))"


subsection \<open>Leaf content elements\<close>

definition parse_img :: "Element \<Rightarrow> IMG" where
  "parse_img elem =
     \<lparr>img_src = get_default elem ''SRC'' [], img_alt = get elem ''alt'',
      img_title = get elem ''title'', img_orient = get elem ''orient'',
      img_pos = get elem ''Pos'', img_align = get elem ''Align'', img_size = get elem ''Size'',
      img_width = get elem ''Width'', img_height = get elem ''Height'',
      img_units = get elem ''Units'', img_type = get elem ''Type''\<rparr>"

definition parse_file_element :: "Element \<Rightarrow> FILE" where
  "parse_file_element elem =
     \<lparr>file_src = get_default elem ''SRC'' [], file_preview = get elem ''PREVIEW'',
      file_type = get elem ''Type'', file_title = get elem ''title''\<rparr>"

definition parse_fnr :: "Element \<Rightarrow> FnR" where
  "parse_fnr elem = \<lparr>fnr_id = get_default elem ''ID'' []\<rparr>"

definition parse_fnarea :: "Element \<Rightarrow> FnArea" where
  "parse_fnarea elem =
     \<lparr>fnarea_line = literal_or ''1'' id (Some (get_default elem ''Line'' ''1'')) [''0'', ''1''],
      fnarea_size = literal_or ''normal'' id (Some (get_default elem ''Size'' ''normal''))
                      [''normal'', ''large'', ''small''],
      fn_refs = map parse_fnr (findall elem ''FnR'')\<rparr>"

definition parse_kommentar :: "Element \<Rightarrow> Kommentar" where
  "parse_kommentar elem =
     \<lparr>kommentar_typ = literal_or ''Hinweis'' id (Some (get_default elem ''typ'' ''Hinweis''))
                        [''Stand'', ''Stand-Hinweis'', ''Hinweis'', ''Fundstelle'', ''Verarbeitung''],
      kommentar_text = el_text elem\<rparr>"

definition parse_pre :: "Element \<Rightarrow> Pre" where
  "parse_pre elem = \<lparr>pre_text = Some (extract_raw_text elem)\<rparr>"

definition parse_dt :: "Element \<Rightarrow> DT" where
  "parse_dt elem = \<lparr>dt_id = get elem ''ID'', dt_text = Some (extract_raw_text elem)\<rparr>"

text \<open>\<open>int(v) if v else None\<close> for an optional attribute \<open>v\<close>.\<close>

definition int_if :: "string option \<Rightarrow> error + int option" where
  "int_if v = (if truthy v then bind_err (py_int (the v)) (\<lambda>n. Inr (Some n)) else Inr None)"

definition parse_colspec :: "Element \<Rightarrow> error + Colspec" where
  "parse_colspec elem =
     bind_err (int_if (get elem ''colnum'')) (\<lambda>n. Inr
       \<lparr>colspec_colname = get elem ''colname'', colspec_colnum = n,
        colspec_colwidth = get elem ''colwidth'', colspec_align = get elem ''align'',
        colspec_colsep = get elem ''colsep'', colspec_rowsep = get elem ''rowsep''\<rparr>)"

subsection \<open>The recursive descent\<close>

text \<open>
  The loops \<open>for child in elem\<close> of \<open>parse_dl\<close> and \<open>parse_content_elements\<close> are the
  functions \<open>parse_dl_loop\<close> and \<open>parse_content_loop\<close>: they take the children still to
  visit and the loop's variables (\<open>items\<close> and \<open>current_dt\<close>; \<open>elements\<close>). A \<open>tgroup\<close>
  without \<open>tbody\<close> is parsed as if it had an empty one.
\<close>

function (sequential) parse_la :: "Element \<Rightarrow> error + ContentElement LA"
  and parse_dd :: "Element \<Rightarrow> error + ContentElement DD"
  and parse_dl :: "Element \<Rightarrow> error + ContentElement DL"
  and parse_dl_loop ::
    "Element list \<Rightarrow> ContentElement DLItem list \<Rightarrow> DT option \<Rightarrow> error + ContentElement DLItem list"
  and parse_entry :: "Element \<Rightarrow> error + ContentElement Entry"
  and parse_row :: "Element \<Rightarrow> error + ContentElement Row"
  and parse_thead :: "Element \<Rightarrow> error + ContentElement THead"
  and parse_tbody :: "Element \<Rightarrow> error + ContentElement TBody"
  and parse_tfoot :: "Element \<Rightarrow> error + ContentElement TFoot"
  and parse_tgroup :: "Element \<Rightarrow> error + ContentElement TGroup"
  and parse_table :: "Element \<Rightarrow> error + ContentElement Table"
  and parse_format_element :: "Element \<Rightarrow> error + ContentElement FormatElement"
  and parse_p :: "Element \<Rightarrow> error + ContentElement P"
  and parse_revision :: "Element \<Rightarrow> error + ContentElement Revision"
  and parse_toc :: "Element \<Rightarrow> error + ContentElement TOC"
  and parse_content_elements :: "Element \<Rightarrow> error + ContentElement list"
  and parse_content_loop ::
    "Element list \<Rightarrow> ContentElement list \<Rightarrow> error + ContentElement list"
where
  "parse_la elem =
     bind_err (if el_children elem \<noteq> [] then parse_content_elements elem else Inr []) (\<lambda>children.
     Inr (LA (get elem ''ID'')
             (literal_or None Some (get elem ''Size'') [''normal'', ''small'', ''tiny''])
             (get elem ''Value'')
             (if el_children elem = [] then Some (extract_raw_text elem) else None)
             children))"
| "parse_dd elem =
     bind_err (for_each parse_revision (findall elem ''Revision'')) (\<lambda>revisions.
     bind_err (case find elem ''LA'' of None \<Rightarrow> Inr None
               | Some la_elem \<Rightarrow> bind_err (parse_la la_elem) (\<lambda>la. Inr (Some la))) (\<lambda>la.
     Inr (DD (get elem ''ID'') la revisions)))"
| "parse_dl elem =
     bind_err (parse_dl_loop (el_children elem) [] None) (\<lambda>items.
     Inr (DL (get_attr elem [''ID'', ''Id'', ''id'']) (get elem ''Indent'') (get elem ''Font'')
             (get elem ''Type'') items))"
| "parse_dl_loop [] items current_dt = Inr items"
| "parse_dl_loop (child # rest) items current_dt =
     (if el_tag child = ''DT'' then parse_dl_loop rest items (Some (parse_dt child))
      else if el_tag child = ''DD'' \<and> current_dt \<noteq> None then
        bind_err (parse_dd child) (\<lambda>dd.
        parse_dl_loop rest (items @ [DLItem (the current_dt) dd]) None)
      else parse_dl_loop rest items current_dt)"
| "parse_entry elem =
     bind_err (int_if (get elem ''morerows'')) (\<lambda>morerows.
     bind_err (parse_content_elements elem) (\<lambda>content.
     Inr (Entry (get elem ''ID'') (get elem ''align'') (get elem ''valign'')
                (get elem ''colname'') (get elem ''namest'') (get elem ''nameend'')
                morerows (get elem ''colsep'') (get elem ''rowsep'') content)))"
| "parse_row elem =
     bind_err (for_each parse_entry (findall elem ''entry'')) (\<lambda>entries.
     Inr (Row (get elem ''ID'') (get elem ''rowsep'') (get elem ''valign'') entries))"
| "parse_thead elem =
     bind_err (for_each parse_row (findall elem ''row'')) (\<lambda>rows. Inr (THead rows))"
| "parse_tbody elem =
     bind_err (for_each parse_row (findall elem ''row'')) (\<lambda>rows. Inr (TBody rows))"
| "parse_tfoot elem =
     bind_err (for_each parse_row (findall elem ''row'')) (\<lambda>rows. Inr (TFoot rows))"
| "parse_tgroup elem =
     bind_err (py_int (get_default elem ''cols'' ''1'')) (\<lambda>cols.
     bind_err (for_each parse_colspec (findall elem ''colspec'')) (\<lambda>colspecs.
     bind_err (case find elem ''thead'' of None \<Rightarrow> Inr None
               | Some thead_elem \<Rightarrow> bind_err (parse_thead thead_elem) (\<lambda>h. Inr (Some h))) (\<lambda>thead.
     bind_err (case find elem ''tbody'' of None \<Rightarrow> Inr (TBody [])
               | Some tbody_elem \<Rightarrow> parse_tbody tbody_elem) (\<lambda>tbody.
     bind_err (case find elem ''tfoot'' of None \<Rightarrow> Inr None
               | Some tfoot_elem \<Rightarrow> bind_err (parse_tfoot tfoot_elem) (\<lambda>f. Inr (Some f))) (\<lambda>tfoot.
     Inr (TGroup cols colspecs thead tbody tfoot))))))"
| "parse_table elem =
     bind_err (for_each parse_tgroup (findall elem ''tgroup'')) (\<lambda>tgroups.
     Inr (Table (get_attr elem [''ID'', ''Id'', ''id'']) (get elem ''frame'') (get elem ''colsep'')
                (get elem ''rowsep'')
                (case find elem ''Title'' of None \<Rightarrow> None | Some title_elem \<Rightarrow> el_text title_elem)
                tgroups))"
| "parse_format_element elem =
     bind_err (parse_content_elements elem) (\<lambda>children.
     Inr (FormatElement (el_tag elem) (get_attr elem [''ID'', ''Id'', ''id''])
                        (get_attr elem [''Class'', ''class'']) (el_text elem) children))"
| "parse_p elem =
     bind_err (parse_content_elements elem) (\<lambda>content.
     Inr (P (get elem ''ID'') content (Some (extract_raw_text elem))))"
| "parse_revision elem =
     bind_err (parse_content_elements elem) (\<lambda>content.
     Inr (Revision (get elem ''ID'') (get elem ''Postfix'') content))"
| "parse_toc elem =
     bind_err (parse_content_elements elem) (\<lambda>content. Inr (TOC (get elem ''ID'') content))"
| "parse_content_elements elem =
     parse_content_loop (el_children elem)
       (if truthy (el_text elem) then
          (let normalized = strip (normalize_whitespace (the (el_text elem)))
           in if normalized \<noteq> [] then [Str normalized] else [])
        else [])"
| "parse_content_loop [] elements = Inr elements"
| "parse_content_loop (child # rest) elements =
     bind_err
       (if is_rec_sup child then Inr elements
        else if el_tag child = ''P'' then
          bind_err (parse_p child) (\<lambda>p. Inr (elements @ [CP p]))
        else if el_tag child = ''DL'' then
          bind_err (parse_dl child) (\<lambda>d. Inr (elements @ [CDL d]))
        else if el_tag child = ''table'' then
          bind_err (parse_table child) (\<lambda>t. Inr (elements @ [CTable t]))
        else if el_tag child = ''IMG'' then Inr (elements @ [CIMG (parse_img child)])
        else if el_tag child = ''FILE'' then Inr (elements @ [CFILE (parse_file_element child)])
        else if el_tag child = ''FnArea'' then Inr (elements @ [CFnArea (parse_fnarea child)])
        else if el_tag child = ''TOC'' then
          bind_err (parse_toc child) (\<lambda>t. Inr (elements @ [CTOC t]))
        else if el_tag child = ''kommentar'' then
          Inr (elements @ [CKommentar (parse_kommentar child)])
        else if el_tag child = ''pre'' then Inr (elements @ [CPre (parse_pre child)])
        else if el_tag child = ''Revision'' then
          bind_err (parse_revision child) (\<lambda>r. Inr (elements @ [CRevision r]))
        else if el_tag child \<in> set [''B'', ''I'', ''U'', ''SUP'', ''SUB'', ''SP'', ''small'', ''Citation''] then
          bind_err (parse_format_element child) (\<lambda>f. Inr (elements @ [CFormat f]))
        else if el_tag child = ''BR'' then Inr (elements @ [Str [CHR 0x0A]])
        else (let raw = extract_raw_text child
              in if raw \<noteq> [] then Inr (elements @ [Str raw]) else Inr elements))
       (\<lambda>elements.
          parse_content_loop rest
            (if truthy (el_tail child) then
               (let tail = normalize_whitespace (the (el_tail child))
                in if tail \<noteq> [] \<and> tail \<noteq> '' '' then elements @ [Str tail] else elements)
             else elements))"
  by pat_completeness auto
termination
  by lexicographic_order

subsection \<open>Text bodies and norms\<close>

definition parse_content :: "Element option \<Rightarrow> error + Content option" where
  "parse_content e =
     (case e of None \<Rightarrow> Inr None
      | Some elem \<Rightarrow>
          bind_err (parse_content_elements elem) (\<lambda>elements. Inr (Some
            \<lparr>content_id = get elem ''ID'', content_elements = elements,
             content_raw_text = Some (extract_raw_text elem)\<rparr>)))"

definition parse_footnote :: "Element \<Rightarrow> error + Footnote" where
  "parse_footnote elem =
     bind_err (parse_content_elements elem) (\<lambda>content. Inr
       \<lparr>footnote_id = get_default elem ''ID'' [], footnote_prefix = get elem ''Prefix'',
        footnote_fn_z = get elem ''FnZ'', footnote_postfix = get elem ''Postfix'',
        footnote_pos = get elem ''Pos'', footnote_group = get elem ''Group'',
        footnote_content = content\<rparr>)"

definition parse_footnotes :: "Element option \<Rightarrow> error + Footnotes option" where
  "parse_footnotes e =
     (case e of None \<Rightarrow> Inr None
      | Some elem \<Rightarrow>
          bind_err (for_each parse_footnote (findall elem ''Footnote'')) (\<lambda>fns.
          Inr (Some \<lparr>footnotes_list = fns\<rparr>)))"

definition parse_toc_opt :: "Element option \<Rightarrow> error + ContentElement TOC option" where
  "parse_toc_opt e =
     (case e of None \<Rightarrow> Inr None
      | Some toc_elem \<Rightarrow> bind_err (parse_toc toc_elem) (\<lambda>t. Inr (Some t)))"

definition parse_text :: "Element option \<Rightarrow> error + Text option" where
  "parse_text e =
     (case e of None \<Rightarrow> Inr None
      | Some elem \<Rightarrow>
          bind_err (parse_toc_opt (find elem ''TOC'')) (\<lambda>toc.
          bind_err (parse_content (find elem ''Content'')) (\<lambda>content.
          bind_err (parse_footnotes (find elem ''Footnotes'')) (\<lambda>footnotes.
          Inr (Some \<lparr>text_format = get elem ''format'', text_toc = toc,
                     text_content = content, text_footnotes = footnotes\<rparr>)))))"

definition parse_fussnoten :: "Element option \<Rightarrow> error + Fussnoten option" where
  "parse_fussnoten e =
     (case e of None \<Rightarrow> Inr None
      | Some elem \<Rightarrow>
          bind_err (parse_toc_opt (find elem ''TOC'')) (\<lambda>toc.
          bind_err (parse_content (find elem ''Content'')) (\<lambda>content.
          bind_err (parse_footnotes (find elem ''Footnotes'')) (\<lambda>footnotes.
          Inr (Some \<lparr>fussnoten_format = get elem ''format'', fussnoten_toc = toc,
                     fussnoten_content = content, fussnoten_footnotes = footnotes\<rparr>)))))"

definition parse_textdaten :: "Element option \<Rightarrow> error + Textdaten option" where
  "parse_textdaten e =
     (case e of None \<Rightarrow> Inr None
      | Some elem \<Rightarrow>
          bind_err (parse_text (find elem ''text'')) (\<lambda>t.
          bind_err (parse_fussnoten (find elem ''fussnoten'')) (\<lambda>f.
          Inr (Some \<lparr>textdaten_text = t, textdaten_fussnoten = f\<rparr>))))"

definition parse_norm :: "Element \<Rightarrow> error + Norm" where
  "parse_norm elem =
     bind_err (parse_textdaten (find elem ''textdaten'')) (\<lambda>td. Inr
       \<lparr>norm_builddate = get elem ''builddate'', norm_doknr = get elem ''doknr'',
        metadaten = parse_metadaten (find elem ''metadaten''), textdaten = td\<rparr>)"

definition parse_dokumente :: "Element \<Rightarrow> error + Dokumente" where
  "parse_dokumente root =
     bind_err (for_each parse_norm (findall root ''norm'')) (\<lambda>ns. Inr
       \<lparr>builddate = get root ''builddate'', doknr = get root ''doknr'', normen = ns\<rparr>)"


section \<open>Text extraction and the reference parser (\<open>utils.py\<close>)\<close>

text \<open>\<open>hasattr(elem, "text") and elem.text\<close>: of the content elements, \<open>Kommentar\<close>,
  \<open>Pre\<close> and \<open>FormatElement\<close> have a field \<open>text\<close>.\<close>

fun attr_text :: "ContentElement \<Rightarrow> string option" where
  "attr_text (CKommentar k) = kommentar_text k"
| "attr_text (CPre p) = pre_text p"
| "attr_text (CFormat f) = format_text f"
| "attr_text _ = None"

fun p_text_parts :: "ContentElement list \<Rightarrow> string list" where
  "p_text_parts [] = []"
| "p_text_parts (Str t # rest) = t # p_text_parts rest"
| "p_text_parts (elem # rest) = if_text (attr_text elem) @ p_text_parts rest"

definition extract_text_from_p :: "ContentElement P \<Rightarrow> string" where
  "extract_text_from_p p =
     (if truthy (p_raw_text p) then the (p_raw_text p)
      else strip (join '' '' (p_text_parts (p_content p))))"

text \<open>In \<open>extract_text_from_norm\<close> the last branch, \<open>hasattr(item, "raw_text")\<close>, is for
  an item that is neither a string nor a \<open>P\<close>; no such content element has a field
  \<open>raw_text\<close>.\<close>

fun norm_text_parts :: "ContentElement list \<Rightarrow> string list" where
  "norm_text_parts [] = []"
| "norm_text_parts (Str t # rest) = t # norm_text_parts rest"
| "norm_text_parts (CP p # rest) = extract_text_from_p p # norm_text_parts rest"
| "norm_text_parts (item # rest) = norm_text_parts rest"

definition extract_text_from_norm :: "Norm \<Rightarrow> string" where
  "extract_text_from_norm norm =
     (case textdaten norm of None \<Rightarrow> []
      | Some td \<Rightarrow>
     (case textdaten_text td of None \<Rightarrow> []
      | Some t \<Rightarrow>
     (case text_content t of None \<Rightarrow> []
      | Some content \<Rightarrow>
          if truthy (content_raw_text content) then the (content_raw_text content)
          else join [CHR 0x0A] (norm_text_parts (content_elements content)))))"

record LawReference =
  ref_law :: "string option"
  ref_paragraph :: string
  ref_section :: "string option"
  ref_number :: "string option"
  ref_letter :: "string option"
  ref_sentence :: "string option"

text \<open>
  The pattern of \<open>parse_law_reference\<close>, written with \<open>re.VERBOSE\<close>:
  \<^verbatim>\<open>(?:([A-Z][A-Za-z]*[A-Z]|[A-Z]{2,})\s+)?\<close>
  \<^verbatim>\<open>(?:\<section>|Artikel|Art\.?)\s*\<close>
  \<^verbatim>\<open>(\d+[a-z]?)\<close>
  \<^verbatim>\<open>(?:\s+(?:Absatz|Abs\.?)\s+(\d+))?\<close>
  \<^verbatim>\<open>(?:\s+(?:Nummer|Nr\.?)\s+(\d+))?\<close>
  \<^verbatim>\<open>(?:\s+Buchstabe[n]?\s+([a-z]))?\<close>
  \<^verbatim>\<open>(?:\s+Satz\s+(\d+))?\<close>
  It is searched with \<open>re.VERBOSE | re.IGNORECASE\<close>.
\<close>

definition upper_cls :: regex where
  "upper_cls = Cls [(CHR ''A'', CHR ''Z'')]"

definition alpha_cls :: regex where
  "alpha_cls = Cls [(CHR ''A'', CHR ''Z''), (CHR ''a'', CHR ''z'')]"

definition lower_cls :: regex where
  "lower_cls = Cls [(CHR ''a'', CHR ''z'')]"

definition Dot :: regex where
  "Dot = Lit CHR ''.''"

definition reference_pattern :: regex where
  "reference_pattern =
     Seqs (Opt (Seq (Group 1 (Alt (Seqs upper_cls [Star alpha_cls, upper_cls])
                                  (Seqs upper_cls [upper_cls, Star upper_cls])))
                    (Plus Space)))
      [Alt (Lit SECT) (Alt (Word CHR ''A'' ''rtikel'') (Seq (Word CHR ''A'' ''rt'') (Opt Dot))),
       Star Space,
       Group 2 (Seq (Plus Digit) (Opt lower_cls)),
       Opt (Seqs (Plus Space)
              [Alt (Word CHR ''A'' ''bsatz'') (Seq (Word CHR ''A'' ''bs'') (Opt Dot)), Plus Space,
               Group 3 (Plus Digit)]),
       Opt (Seqs (Plus Space)
              [Alt (Word CHR ''N'' ''ummer'') (Seq (Word CHR ''N'' ''r'') (Opt Dot)), Plus Space,
               Group 4 (Plus Digit)]),
       Opt (Seqs (Plus Space)
              [Word CHR ''B'' ''uchstabe'', Opt (Cls [(CHR ''n'', CHR ''n'')]), Plus Space,
               Group 5 lower_cls]),
       Opt (Seqs (Plus Space) [Word CHR ''S'' ''atz'', Plus Space, Group 6 (Plus Digit)])]"

text \<open>\<open>m.group(k) if m.group(k) else None\<close>.\<close>

definition group_or_none :: "groups \<Rightarrow> nat \<Rightarrow> string option" where
  "group_or_none g k = (if truthy (group g k) then group g k else None)"

text \<open>The result dictionary built from the groups of a match.\<close>

definition law_reference_of :: "groups \<Rightarrow> LawReference" where
  "law_reference_of g =
     \<lparr>ref_law = group_or_none g 1,
      ref_paragraph = (case group g 2 of None \<Rightarrow> [] | Some p \<Rightarrow> p),
      ref_section = group_or_none g 3,
      ref_number = group_or_none g 4,
      ref_letter = group_or_none g 5,
      ref_sentence = group_or_none g 6\<rparr>"

definition parse_law_reference :: "string \<Rightarrow> LawReference option" where
  "parse_law_reference reference =
     (case re_search True reference_pattern reference of
        None \<Rightarrow> None
      | Some m \<Rightarrow> Some (law_reference_of (snd m)))"

section \<open>Queries (\<open>Dokumente\<close> in \<open>models.py\<close>, \<open>LawSearch\<close> in \<open>search.py\<close>)\<close>

text \<open>\<open>norm.metadaten and norm.metadaten.enbez\<close>.\<close>

definition has_enbez :: "Norm \<Rightarrow> bool" where
  "has_enbez norm = (case metadaten norm of None \<Rightarrow> False | Some m \<Rightarrow> truthy (enbez m))"

definition norm_enbez :: "Norm \<Rightarrow> string" where
  "norm_enbez norm = the (enbez (the (metadaten norm)))"

definition get_paragraphen :: "Dokumente \<Rightarrow> Norm list" where
  "get_paragraphen d = filter has_enbez (normen d)"

text \<open>\<open>label.replace("\<section>", "").strip()\<close>.\<close>

definition normalize_label :: "string \<Rightarrow> string" where
  "normalize_label label = strip (replace label [SECT] [])"

fun find_norm_loop :: "string \<Rightarrow> Norm list \<Rightarrow> Norm option" where
  "find_norm_loop enbez_normalized [] = None"
| "find_norm_loop enbez_normalized (norm # rest) =
     (if has_enbez norm then
        (if normalize_label (norm_enbez norm) = enbez_normalized then Some norm
         else find_norm_loop enbez_normalized rest)
      else find_norm_loop enbez_normalized rest)"

text \<open>\<open>Dokumente.find_paragraph\<close>.\<close>

definition dokumente_find_paragraph :: "Dokumente \<Rightarrow> string \<Rightarrow> Norm option" where
  "dokumente_find_paragraph d label =
     find_norm_loop (normalize_label label) (get_paragraphen d)"

record LawSearch =
  documents :: Dokumente
  law_code :: string

definition rule_line :: string where
  "rule_line = replicate 70 CHR ''=''"

definition format_paragraph :: "LawSearch \<Rightarrow> Norm \<Rightarrow> bool \<Rightarrow> string" where
  "format_paragraph self norm show_full_text =
     (case metadaten norm of None \<Rightarrow> []
      | Some m \<Rightarrow>
          (let label = (if truthy (enbez m) then the (enbez m) else ''?'');
               result = [rule_line, law_code self @ '' '' @ label];
               result = (if truthy (titel m) then result @ [the (titel m)] else result);
               result = result @ [rule_line];
               body = extract_text_from_norm norm;
               result = (if show_full_text \<and> body \<noteq> [] then result @ [[], body] else result)
           in join [CHR 0x0A] result))"

fun find_paragraph_loop :: "LawSearch \<Rightarrow> string \<Rightarrow> Norm list \<Rightarrow> string option" where
  "find_paragraph_loop self paragraph_num [] = None"
| "find_paragraph_loop self paragraph_num (norm # rest) =
     (if \<not> has_enbez norm then find_paragraph_loop self paragraph_num rest
      else if normalize_label (norm_enbez norm) = paragraph_num
        then Some (format_paragraph self norm True)
      else find_paragraph_loop self paragraph_num rest)"

definition find_paragraph :: "LawSearch \<Rightarrow> string \<Rightarrow> string option" where
  "find_paragraph self paragraph_num =
     find_paragraph_loop self (normalize_label paragraph_num) (get_paragraphen (documents self))"

text \<open>The \<open>P\<close> items of a content list, in order:
  \<open>[elem for elem in elements if isinstance(elem, P)]\<close>.\<close>

fun p_elements :: "ContentElement list \<Rightarrow> ContentElement P list" where
  "p_elements [] = []"
| "p_elements (CP p # rest) = p # p_elements rest"
| "p_elements (item # rest) = p_elements rest"

text \<open>The loop of \<open>_find_section_in_norm\<close> counts the \<open>P\<close> items and returns the one
  that brings the count to the target.\<close>

fun section_loop :: "ContentElement list \<Rightarrow> int \<Rightarrow> int \<Rightarrow> ContentElement P option" where
  "section_loop [] section_count target_section = None"
| "section_loop (CP p # rest) section_count target_section =
     (if section_count + 1 = target_section then Some p
      else section_loop rest (section_count + 1) target_section)"
| "section_loop (item # rest) section_count target_section =
     section_loop rest section_count target_section"

text \<open>The header prints \<open>enbez\<close> with an f-string, so a missing label prints as
  \<open>None\<close>.\<close>

definition section_header_label :: "Norm \<Rightarrow> string" where
  "section_header_label norm =
     (case metadaten norm of None \<Rightarrow> ''?''
      | Some m \<Rightarrow> (case enbez m of None \<Rightarrow> ''None'' | Some e \<Rightarrow> e))"

definition norm_elements :: "Norm \<Rightarrow> ContentElement list" where
  "norm_elements norm =
     (case textdaten norm of None \<Rightarrow> []
      | Some td \<Rightarrow>
     (case textdaten_text td of None \<Rightarrow> []
      | Some t \<Rightarrow>
     (case text_content t of None \<Rightarrow> [] | Some content \<Rightarrow> content_elements content)))"

definition format_section :: "LawSearch \<Rightarrow> Norm \<Rightarrow> string \<Rightarrow> ContentElement P \<Rightarrow> string" where
  "format_section self norm section_num item =
     join [CHR 0x0A]
       [rule_line,
        law_code self @ '' '' @ section_header_label norm @ '' Absatz '' @ section_num,
        rule_line, [], extract_text_from_p item]"

definition find_section_in_norm :: "LawSearch \<Rightarrow> Norm \<Rightarrow> string \<Rightarrow> error + string option" where
  "find_section_in_norm self norm section_num =
     (if norm_elements norm = [] then Inr None
      else bind_err (py_int section_num) (\<lambda>target_section.
           case section_loop (norm_elements norm) 0 target_section of
             None \<Rightarrow> Inr None
           | Some item \<Rightarrow> Inr (Some (format_section self norm section_num item))))"

fun find_paragraph_section_loop ::
  "LawSearch \<Rightarrow> string \<Rightarrow> string \<Rightarrow> Norm list \<Rightarrow> error + string option" where
  "find_paragraph_section_loop self paragraph_num section_num [] = Inr None"
| "find_paragraph_section_loop self paragraph_num section_num (norm # rest) =
     (if \<not> has_enbez norm then find_paragraph_section_loop self paragraph_num section_num rest
      else if normalize_label (norm_enbez norm) = paragraph_num
        then find_section_in_norm self norm section_num
      else find_paragraph_section_loop self paragraph_num section_num rest)"

definition find_paragraph_section :: "LawSearch \<Rightarrow> string \<Rightarrow> string \<Rightarrow> error + string option" where
  "find_paragraph_section self paragraph_num section_num =
     find_paragraph_section_loop self (normalize_label paragraph_num) section_num
       (get_paragraphen (documents self))"

record SearchResult =
  result_paragraph :: string
  result_title :: string
  result_context :: string

definition norm_title :: "Norm \<Rightarrow> string" where
  "norm_title norm = (if truthy (titel (the (metadaten norm))) then the (titel (the (metadaten norm))) else [])"

text \<open>
  The body of the loop of \<open>search_term\<close> from the comparison on, for a text and a term
  read as code points: the offset of the term is looked up in \<open>compare_text\<close>, the
  lower-cased text, and the context is cut out of \<open>text\<close> at that offset.
\<close>

definition context_window :: "nat list \<Rightarrow> bool \<Rightarrow> nat list \<Rightarrow> nat list option" where
  "context_window term case_sensitive body =
     (let search_term = (if case_sensitive then term else lower_u term);
          compare_text = (if case_sensitive then body else lower_u body)
      in case find_str compare_text search_term of
           None \<Rightarrow> None
         | Some idx \<Rightarrow>
             (let start = nat (max 0 (int idx - 100));
                  end_ix = min (length body) (idx + length term + 100);
                  context = slice body start end_ix;
                  context = (if 0 < start then ustr ''...'' @ context else context);
                  context = (if end_ix < length body then context @ ustr ''...'' else context)
              in Some context))"

text \<open>The result appended for a norm with a label and a non-empty text, if the term
  occurs. The strings of the document model are code points below U+0100, and so is
  the context cut out of them.\<close>

definition search_hit :: "string \<Rightarrow> bool \<Rightarrow> Norm \<Rightarrow> SearchResult option" where
  "search_hit term case_sensitive norm =
     (case context_window (ustr term) case_sensitive (ustr (extract_text_from_norm norm)) of
        None \<Rightarrow> None
      | Some context \<Rightarrow>
          Some \<lparr>result_paragraph = norm_enbez norm, result_title = norm_title norm,
                result_context = latin1 context\<rparr>)"

fun search_loop :: "string \<Rightarrow> bool \<Rightarrow> Norm list \<Rightarrow> SearchResult list \<Rightarrow> SearchResult list" where
  "search_loop term case_sensitive [] results = results"
| "search_loop term case_sensitive (norm # rest) results =
     (if \<not> has_enbez norm then search_loop term case_sensitive rest results
      else if extract_text_from_norm norm = [] then search_loop term case_sensitive rest results
      else case search_hit term case_sensitive norm of
             None \<Rightarrow> search_loop term case_sensitive rest results
           | Some r \<Rightarrow> search_loop term case_sensitive rest (results @ [r]))"

definition search_term :: "LawSearch \<Rightarrow> string \<Rightarrow> bool \<Rightarrow> SearchResult list" where
  "search_term self term case_sensitive =
     search_loop term case_sensitive (get_paragraphen (documents self)) []"


section \<open>Properties\<close>

subsection \<open>C3: the two facets of a norm\<close>

text \<open>
  C3, as stated, fails. The claim is that a norm with metadata has exactly one of
  \<open>gliederungseinheit\<close> and \<open>enbez\<close>. A metadata block with only a \<open>jurabk\<close> child gives
  a norm with metadata and neither facet; a metadata block with an \<open>enbez\<close> and a
  \<open>gliederungseinheit\<close> child gives a norm with both.
\<close>

theorem C3_counterexample:
  "parse_norm (Element ''norm'' [] None None
     [Element ''metadaten'' [] None None [Element ''jurabk'' [] (Some ''BGB'') None []]])
   = Inr \<lparr>norm_builddate = None, norm_doknr = None,
          metadaten = Some \<lparr>jurabk = [''BGB''], amtabk = None, ausfertigung_datum = None,
             fundstelle = [], kurzue = None, langue = None, standangabe = [],
             enbez = None, titel = None, gliederungseinheit = None\<rparr>,
          textdaten = None\<rparr>
   \<and> parse_norm (Element ''norm'' [] None None
     [Element ''metadaten'' [] None None
        [Element ''enbez'' [] (Some (SECT # '' 1'')) None [],
         Element ''gliederungseinheit'' [] None None
           [Element ''gliederungsbez'' [] (Some ''Erster Abschnitt'') None []]]])
   = Inr \<lparr>norm_builddate = None, norm_doknr = None,
          metadaten = Some \<lparr>jurabk = [], amtabk = None, ausfertigung_datum = None,
             fundstelle = [], kurzue = None, langue = None, standangabe = [],
             enbez = Some (SECT # '' 1''), titel = None,
             gliederungseinheit = Some \<lparr>gliederungskennzahl = None,
                gliederungsbez = Some ''Erster Abschnitt'', gliederungstitel = None\<rparr>\<rparr>,
          textdaten = None\<rparr>"
  by code_simp

text \<open>
  C3, as amended: the parser fills the two facets of a norm independently. For a norm
  element with a metadata block, the norm has metadata, its \<open>enbez\<close> is the stripped text
  of the block's first \<open>enbez\<close> child (unset when there is no such child or it has no
  text), and its \<open>gliederungseinheit\<close> is set exactly when the block has a
  \<open>gliederungseinheit\<close> child.
\<close>

theorem C3_facets_independent:
  assumes "parse_norm elem = Inr n" and "find elem ''metadaten'' = Some me"
  shows "metadaten n \<noteq> None
         \<and> enbez (the (metadaten n)) = get_text me ''enbez''
         \<and> (gliederungseinheit (the (metadaten n)) \<noteq> None) = (find me ''gliederungseinheit'' \<noteq> None)"
  using assms
  by (auto simp: parse_norm_def bind_err_def parse_metadaten_def parse_gliederungseinheit_def Let_def
           split: sum.splits option.splits)

theorem C3_facets_independent_witness:
  "parse_norm (Element ''norm'' [] None None
       [Element ''metadaten'' [] None None [Element ''enbez'' [] (Some (SECT # '' 1 '')) None []]])
     = Inr \<lparr>norm_builddate = None, norm_doknr = None,
          metadaten = Some \<lparr>jurabk = [], amtabk = None, ausfertigung_datum = None,
             fundstelle = [], kurzue = None, langue = None, standangabe = [],
             enbez = Some (SECT # '' 1''), titel = None, gliederungseinheit = None\<rparr>,
          textdaten = None\<rparr>
   \<and> find (Element ''norm'' [] None None
       [Element ''metadaten'' [] None None [Element ''enbez'' [] (Some (SECT # '' 1 '')) None []]])
       ''metadaten''
     = Some (Element ''metadaten'' [] None None [Element ''enbez'' [] (Some (SECT # '' 1 '')) None []])
   \<and> get_text (Element ''metadaten'' [] None None [Element ''enbez'' [] (Some (SECT # '' 1 '')) None []])
        ''enbez'' = Some (SECT # '' 1'')
   \<and> find (Element ''metadaten'' [] None None [Element ''enbez'' [] (Some (SECT # '' 1 '')) None []])
        ''gliederungseinheit'' = None"
proof -
  let ?me = "Element ''metadaten'' [] None None [Element ''enbez'' [] (Some (SECT # '' 1 '')) None []]"
  let ?e = "Element ''norm'' [] None None [?me]"
  let ?n = "\<lparr>norm_builddate = None, norm_doknr = None,
          metadaten = Some \<lparr>jurabk = [], amtabk = None, ausfertigung_datum = None,
             fundstelle = [], kurzue = None, langue = None, standangabe = [],
             enbez = Some (SECT # '' 1''), titel = None, gliederungseinheit = None\<rparr>,
          textdaten = None\<rparr>"
  have h1: "parse_norm ?e = Inr ?n" by code_simp
  have h2: "find ?e ''metadaten'' = Some ?me" by code_simp
  from C3_facets_independent [OF h1 h2] h1 h2 show ?thesis by simp
qed


subsection \<open>C4 and C2: the reference parser\<close>

text \<open>\<open>re.search\<close> reports the match at the lowest start offset that has one.\<close>

lemma re_search_first:
  "re_search ic r s = Some m \<Longrightarrow>
     \<exists>i. i \<le> length s \<and> re_match ic r (drop i s) = Some m
         \<and> (\<forall>j. j < i \<longrightarrow> re_match ic r (drop j s) = None)"
proof (induction s)
  case Nil
  then show ?case by auto
next
  case (Cons c cs)
  show ?case
  proof (cases "re_match ic r (c # cs)")
    case None
    with Cons.prems have "re_search ic r cs = Some m" by simp
    from Cons.IH[OF this] obtain i where i: "i \<le> length cs" "re_match ic r (drop i cs) = Some m"
      "\<forall>j. j < i \<longrightarrow> re_match ic r (drop j cs) = None" by blast
    have "\<forall>j. j < Suc i \<longrightarrow> re_match ic r (drop j (c # cs)) = None"
    proof (intro allI impI)
      fix j assume "j < Suc i"
      then show "re_match ic r (drop j (c # cs)) = None"
        using None i(3) by (cases j) auto
    qed
    with i show ?thesis by (intro exI[of _ "Suc i"]) auto
  next
    case (Some m')
    with Cons.prems have "m' = m" by simp
    with Some show ?thesis by (intro exI[of _ 0]) auto
  qed
qed

lemma re_search_None:
  "re_search ic r s = None \<Longrightarrow> i \<le> length s \<Longrightarrow> re_match ic r (drop i s) = None"
proof (induction s arbitrary: i)
  case Nil
  then show ?case by auto
next
  case (Cons c cs)
  then show ?case by (cases i) (auto split: option.splits)
qed

lemma re_search_Some_iff:
  "(re_search ic r s = Some m) =
     (\<exists>i. i \<le> length s \<and> re_match ic r (drop i s) = Some m
         \<and> (\<forall>j. j < i \<longrightarrow> re_match ic r (drop j s) = None))"
proof
  assume "re_search ic r s = Some m"
  then show "\<exists>i. i \<le> length s \<and> re_match ic r (drop i s) = Some m
         \<and> (\<forall>j. j < i \<longrightarrow> re_match ic r (drop j s) = None)"
    by (rule re_search_first)
next
  assume "\<exists>i. i \<le> length s \<and> re_match ic r (drop i s) = Some m
         \<and> (\<forall>j. j < i \<longrightarrow> re_match ic r (drop j s) = None)"
  then obtain i where i: "i \<le> length s" "re_match ic r (drop i s) = Some m"
    "\<forall>j. j < i \<longrightarrow> re_match ic r (drop j s) = None" by blast
  show "re_search ic r s = Some m"
  proof (cases "re_search ic r s")
    case None
    from re_search_None[OF None i(1)] i(2) show ?thesis by simp
  next
    case (Some m')
    from re_search_first[OF Some] obtain k where k: "k \<le> length s"
      "re_match ic r (drop k s) = Some m'"
      "\<forall>j. j < k \<longrightarrow> re_match ic r (drop j s) = None" by blast
    have "k = i"
    proof (rule ccontr)
      assume "k \<noteq> i"
      then consider "k < i" | "i < k" by linarith
      then show False
      proof cases
        case 1
        with i(3) k(2) show False by simp
      next
        case 2
        with k(3) i(2) show False by simp
      qed
    qed
    with k(2) i(2) Some show ?thesis by simp
  qed
qed

text \<open>The reference that the pattern matches at start offset \<open>i\<close> of the input, if it
  matches there.\<close>

definition reference_at :: "string \<Rightarrow> nat \<Rightarrow> LawReference option" where
  "reference_at s i =
     (case re_match True reference_pattern (drop i s) of
        None \<Rightarrow> None | Some m \<Rightarrow> Some (law_reference_of (snd m)))"

lemma reference_at_None: "(reference_at s i = None) = (re_match True reference_pattern (drop i s) = None)"
  by (simp add: reference_at_def split: option.splits)

lemma parse_law_reference_Some_iff:
  "(parse_law_reference s = Some r) =
     (\<exists>i. i \<le> length s \<and> reference_at s i = Some r
          \<and> (\<forall>j. j < i \<longrightarrow> reference_at s j = None))"
proof
  assume "parse_law_reference s = Some r"
  then obtain m where m: "re_search True reference_pattern s = Some m"
    and r: "r = law_reference_of (snd m)"
    by (auto simp: parse_law_reference_def split: option.splits)
  from re_search_first[OF m] obtain i where i: "i \<le> length s"
    "re_match True reference_pattern (drop i s) = Some m"
    "\<forall>j. j < i \<longrightarrow> re_match True reference_pattern (drop j s) = None" by blast
  show "\<exists>i. i \<le> length s \<and> reference_at s i = Some r
             \<and> (\<forall>j. j < i \<longrightarrow> reference_at s j = None)"
    using i r by (intro exI[of _ i]) (simp add: reference_at_def)
next
  assume "\<exists>i. i \<le> length s \<and> reference_at s i = Some r
          \<and> (\<forall>j. j < i \<longrightarrow> reference_at s j = None)"
  then obtain i where i: "i \<le> length s" "reference_at s i = Some r"
    "\<forall>j. j < i \<longrightarrow> reference_at s j = None" by blast
  from i(2) obtain m where m: "re_match True reference_pattern (drop i s) = Some m"
    and r: "r = law_reference_of (snd m)"
    by (auto simp: reference_at_def split: option.splits)
  have "re_search True reference_pattern s = Some m"
    unfolding re_search_Some_iff using i(1) m i(3) by (auto simp: reference_at_None)
  then show "parse_law_reference s = Some r"
    using r by (simp add: parse_law_reference_def)
qed

lemma parse_law_reference_None_iff:
  "(parse_law_reference s = None) = (\<forall>i. i \<le> length s \<longrightarrow> reference_at s i = None)"
proof
  assume "parse_law_reference s = None"
  then have "re_search True reference_pattern s = None"
    by (auto simp: parse_law_reference_def split: option.splits)
  then show "\<forall>i. i \<le> length s \<longrightarrow> reference_at s i = None"
    by (auto simp: reference_at_None dest: re_search_None)
next
  assume a: "\<forall>i. i \<le> length s \<longrightarrow> reference_at s i = None"
  show "parse_law_reference s = None"
  proof (cases "parse_law_reference s")
    case None
    then show ?thesis .
  next
    case (Some r)
    then obtain i where "i \<le> length s" "reference_at s i = Some r"
      unfolding parse_law_reference_Some_iff by blast
    with a show ?thesis by simp
  qed
qed

text \<open>
  C4: the reference parser maps \<open>BGB \<section> 1 Absatz 1 Satz 1\<close> to law \<open>BGB\<close>, paragraph
  \<open>1\<close>, section \<open>1\<close>, sentence \<open>1\<close>, with number and letter unset; on
  \<open>Siehe \<section> 1 und \<section> 2 Absatz 3\<close> it returns paragraph \<open>1\<close> with the section unset.
  On every input it returns a reference exactly when the pattern matches at some
  offset of the input, and then the reference is the one matched at the first such
  offset; it returns no match exactly when the pattern matches at no offset.
\<close>

theorem C4_first_reference:
  "parse_law_reference (''BGB '' @ [SECT] @ '' 1 Absatz 1 Satz 1'')
     = Some \<lparr>ref_law = Some ''BGB'', ref_paragraph = ''1'', ref_section = Some ''1'',
             ref_number = None, ref_letter = None, ref_sentence = Some ''1''\<rparr>
   \<and> parse_law_reference (''Siehe '' @ [SECT] @ '' 1 und '' @ [SECT] @ '' 2 Absatz 3'')
     = Some \<lparr>ref_law = Some ''Siehe'', ref_paragraph = ''1'', ref_section = None,
             ref_number = None, ref_letter = None, ref_sentence = None\<rparr>
   \<and> (parse_law_reference s = Some r) =
        (\<exists>i. i \<le> length s \<and> reference_at s i = Some r
             \<and> (\<forall>j. j < i \<longrightarrow> reference_at s j = None))
   \<and> (parse_law_reference s = None) = (\<forall>i. i \<le> length s \<longrightarrow> reference_at s i = None)"
proof (intro conjI)
  show "parse_law_reference (''BGB '' @ [SECT] @ '' 1 Absatz 1 Satz 1'')
     = Some \<lparr>ref_law = Some ''BGB'', ref_paragraph = ''1'', ref_section = Some ''1'',
             ref_number = None, ref_letter = None, ref_sentence = Some ''1''\<rparr>"
    by code_simp
  show "parse_law_reference (''Siehe '' @ [SECT] @ '' 1 und '' @ [SECT] @ '' 2 Absatz 3'')
     = Some \<lparr>ref_law = Some ''Siehe'', ref_paragraph = ''1'', ref_section = None,
             ref_number = None, ref_letter = None, ref_sentence = None\<rparr>"
    by code_simp
  show "(parse_law_reference s = Some r) =
        (\<exists>i. i \<le> length s \<and> reference_at s i = Some r
             \<and> (\<forall>j. j < i \<longrightarrow> reference_at s j = None))"
    by (rule parse_law_reference_Some_iff)
  show "(parse_law_reference s = None) = (\<forall>i. i \<le> length s \<longrightarrow> reference_at s i = None)"
    by (rule parse_law_reference_None_iff)
qed

text \<open>On \<open>vgl. \<section> 1 und \<section> 2 Absatz 3\<close> the pattern matches at no offset below 5, at
  offset 5 with paragraph \<open>1\<close> and again at offset 13 with paragraph \<open>2\<close>, section \<open>3\<close>:
  the parser returns the first. On \<open>Nach BGB \<section> 433 Absatz 1 hat\<close> the first match is at
  offset 5 too.\<close>

theorem C4_first_reference_witness:
  "reference_at (''vgl. '' @ [SECT] @ '' 1 und '' @ [SECT] @ '' 2 Absatz 3'') 0 = None
   \<and> reference_at (''vgl. '' @ [SECT] @ '' 1 und '' @ [SECT] @ '' 2 Absatz 3'') 4 = None
   \<and> reference_at (''vgl. '' @ [SECT] @ '' 1 und '' @ [SECT] @ '' 2 Absatz 3'') 5
       = Some \<lparr>ref_law = None, ref_paragraph = ''1'', ref_section = None,
               ref_number = None, ref_letter = None, ref_sentence = None\<rparr>
   \<and> reference_at (''vgl. '' @ [SECT] @ '' 1 und '' @ [SECT] @ '' 2 Absatz 3'') 13
       = Some \<lparr>ref_law = None, ref_paragraph = ''2'', ref_section = Some ''3'',
               ref_number = None, ref_letter = None, ref_sentence = None\<rparr>
   \<and> parse_law_reference (''vgl. '' @ [SECT] @ '' 1 und '' @ [SECT] @ '' 2 Absatz 3'')
       = Some \<lparr>ref_law = None, ref_paragraph = ''1'', ref_section = None,
               ref_number = None, ref_letter = None, ref_sentence = None\<rparr>
   \<and> parse_law_reference (''Nach BGB '' @ [SECT] @ '' 433 Absatz 1 hat'')
       = Some \<lparr>ref_law = Some ''BGB'', ref_paragraph = ''433'', ref_section = Some ''1'',
               ref_number = None, ref_letter = None, ref_sentence = None\<rparr>
   \<and> parse_law_reference ''Absatz 2'' = None"
proof -
  let ?s = "''vgl. '' @ [SECT] @ '' 1 und '' @ [SECT] @ '' 2 Absatz 3''"
  let ?r = "\<lparr>ref_law = None, ref_paragraph = ''1'', ref_section = None,
               ref_number = None, ref_letter = None, ref_sentence = None\<rparr>"
  let ?t = "''Nach BGB '' @ [SECT] @ '' 433 Absatz 1 hat''"
  let ?q = "\<lparr>ref_law = Some ''BGB'', ref_paragraph = ''433'', ref_section = Some ''1'',
               ref_number = None, ref_letter = None, ref_sentence = None\<rparr>"
  have s0: "reference_at ?s 0 = None" by code_simp
  have s1: "reference_at ?s 1 = None" by code_simp
  have s2: "reference_at ?s 2 = None" by code_simp
  have s3: "reference_at ?s 3 = None" by code_simp
  have s4: "reference_at ?s 4 = None" by code_simp
  have s5: "reference_at ?s 5 = Some ?r" by code_simp
  have s13: "reference_at ?s 13
       = Some \<lparr>ref_law = None, ref_paragraph = ''2'', ref_section = Some ''3'',
               ref_number = None, ref_letter = None, ref_sentence = None\<rparr>" by code_simp
  have before_s: "\<forall>j. j < 5 \<longrightarrow> reference_at ?s j = None"
  proof (intro allI impI)
    fix j :: nat assume "j < 5"
    then consider "j = 0" | "j = 1" | "j = 2" | "j = 3" | "j = 4" by linarith
    then show "reference_at ?s j = None"
      using s0 s1 s2 s3 s4 by cases simp_all
  qed
  have len_s: "(5::nat) \<le> length ?s" by simp
  have ps: "parse_law_reference ?s = Some ?r"
    using C4_first_reference [of ?s ?r] len_s s5 before_s by blast
  have t0: "reference_at ?t 0 = None" by code_simp
  have t1: "reference_at ?t 1 = None" by code_simp
  have t2: "reference_at ?t 2 = None" by code_simp
  have t3: "reference_at ?t 3 = None" by code_simp
  have t4: "reference_at ?t 4 = None" by code_simp
  have t5: "reference_at ?t 5 = Some ?q" by code_simp
  have before_t: "\<forall>j. j < 5 \<longrightarrow> reference_at ?t j = None"
  proof (intro allI impI)
    fix j :: nat assume "j < 5"
    then consider "j = 0" | "j = 1" | "j = 2" | "j = 3" | "j = 4" by linarith
    then show "reference_at ?t j = None"
      using t0 t1 t2 t3 t4 by cases simp_all
  qed
  have len_t: "(5::nat) \<le> length ?t" by simp
  have pt: "parse_law_reference ?t = Some ?q"
    using C4_first_reference [of ?t ?q] len_t t5 before_t by blast
  have pn: "parse_law_reference ''Absatz 2'' = None" by code_simp
  from s0 s4 s5 s13 ps pt pn show ?thesis by blast
qed

text \<open>
  C2: the parser is to return no law code or a token that starts and ends with a
  capital letter (or is all capitals); a lower-case word before the paragraph sign is
  never to be taken as the law code. The pattern's classes \<open>[A-Z]\<close> say so, but the
  search runs with \<open>re.IGNORECASE\<close>, under which they match lower-case letters too: on
  \<open>siehe \<section> 1\<close> the parser returns the law code \<open>siehe\<close>.
\<close>

theorem C2_lowercase_law_code:
  "parse_law_reference (''siehe '' @ [SECT] @ '' 1'')
     = Some \<lparr>ref_law = Some ''siehe'', ref_paragraph = ''1'', ref_section = None,
             ref_number = None, ref_letter = None, ref_sentence = None\<rparr>"
  by code_simp


subsection \<open>C5: paragraph lookup\<close>

lemma find_filter: "List.find p (filter q xs) = List.find (\<lambda>x. q x \<and> p x) xs"
  by (induction xs) auto

lemma find_norm_loop_find:
  "find_norm_loop q ns = List.find (\<lambda>n. has_enbez n \<and> normalize_label (norm_enbez n) = q) ns"
  by (induction ns) auto

lemma find_paragraph_loop_find:
  "find_paragraph_loop self q ns =
     map_option (\<lambda>n. format_paragraph self n True)
       (List.find (\<lambda>n. has_enbez n \<and> normalize_label (norm_enbez n) = q) ns)"
  by (induction ns) auto

lemma dokumente_find_paragraph_find:
  "dokumente_find_paragraph d label =
     List.find (\<lambda>n. has_enbez n \<and> normalize_label (norm_enbez n) = normalize_label label) (normen d)"
  by (auto simp: dokumente_find_paragraph_def get_paragraphen_def find_norm_loop_find find_filter
           intro: arg_cong2[where f = List.find])

lemma find_paragraph_find:
  "find_paragraph self label =
     map_option (\<lambda>n. format_paragraph self n True) (dokumente_find_paragraph (documents self) label)"
  by (simp add: find_paragraph_def dokumente_find_paragraph_find find_paragraph_loop_find
       get_paragraphen_def find_filter cong: rev_conj_cong)


text \<open>A norm matches a queried label when it has a label and the two labels are equal
  after normalization.\<close>

definition label_matches :: "string \<Rightarrow> Norm \<Rightarrow> bool" where
  "label_matches label n = (has_enbez n \<and> normalize_label (norm_enbez n) = normalize_label label)"

definition paragraph_norm :: "string \<Rightarrow> ContentElement list \<Rightarrow> string \<Rightarrow> Norm" where
  "paragraph_norm label elems raw =
     \<lparr>norm_builddate = None, norm_doknr = None,
      metadaten = Some \<lparr>jurabk = [], amtabk = None, ausfertigung_datum = None,
         fundstelle = [], kurzue = None, langue = None, standangabe = [],
         enbez = Some label, titel = None, gliederungseinheit = None\<rparr>,
      textdaten = Some \<lparr>textdaten_text = Some \<lparr>text_format = None, text_toc = None,
           text_content = Some \<lparr>content_id = None, content_elements = elems,
                                  content_raw_text = Some raw\<rparr>,
           text_footnotes = None\<rparr>,
         textdaten_fussnoten = None\<rparr>\<rparr>"

text \<open>
  C5: paragraph lookup normalizes the queried label and each norm's stored label by
  removing the paragraph sign and the surrounding whitespace and compares the results
  for equality; it returns the first norm of the document, in document order, whose
  label matches, and not-found when none does. So the lookups of \<open>\<section> 8b\<close> and of
  \<open>8b \<close> give the same result on every document, and the lookup of \<open>8\<close> never returns
  a norm labelled \<open>8b\<close> or \<open>\<section> 8b\<close>. \<open>LawSearch.find_paragraph\<close> returns the formatted
  text of the norm that \<open>Dokumente.find_paragraph\<close> returns.
\<close>

theorem C5_paragraph_lookup:
  "(dokumente_find_paragraph d label = Some n) =
      (\<exists>i. i < length (normen d) \<and> n = normen d ! i \<and> label_matches label (normen d ! i)
           \<and> (\<forall>j. j < i \<longrightarrow> \<not> label_matches label (normen d ! j)))
   \<and> (dokumente_find_paragraph d label = None) = (\<forall>n. n \<in> set (normen d) \<longrightarrow> \<not> label_matches label n)
   \<and> find_paragraph self label =
       map_option (\<lambda>n. format_paragraph self n True) (dokumente_find_paragraph (documents self) label)
   \<and> normalize_label label = strip (replace label [SECT] [])
   \<and> find_paragraph self (SECT # '' 8b'') = find_paragraph self ''8b ''
   \<and> dokumente_find_paragraph d (SECT # '' 8b'') = dokumente_find_paragraph d ''8b ''
   \<and> (dokumente_find_paragraph d ''8'' = Some n \<longrightarrow>
        norm_enbez n \<noteq> ''8b'' \<and> norm_enbez n \<noteq> SECT # '' 8b'')"
proof -
  have eq: "normalize_label (SECT # '' 8b'') = normalize_label ''8b ''"
    by code_simp
  have n8: "normalize_label ''8'' = ''8''" by code_simp
  have n8b: "normalize_label ''8b'' = ''8b''" by code_simp
  have n8c: "normalize_label (SECT # '' 8b'') = ''8b''" by code_simp
  have a: "(dokumente_find_paragraph d label = Some n) =
      (\<exists>i. i < length (normen d) \<and> n = normen d ! i \<and> label_matches label (normen d ! i)
           \<and> (\<forall>j. j < i \<longrightarrow> \<not> label_matches label (normen d ! j)))"
    unfolding dokumente_find_paragraph_find find_Some_iff label_matches_def by blast
  have b: "(dokumente_find_paragraph d label = None) = (\<forall>n. n \<in> set (normen d) \<longrightarrow> \<not> label_matches label n)"
    unfolding dokumente_find_paragraph_find find_None_iff label_matches_def by blast
  have c: "dokumente_find_paragraph d (SECT # '' 8b'') = dokumente_find_paragraph d ''8b ''" for d
    by (simp only: dokumente_find_paragraph_find eq)
  have e: "norm_enbez n \<noteq> ''8b'' \<and> norm_enbez n \<noteq> SECT # '' 8b''"
    if "dokumente_find_paragraph d ''8'' = Some n"
  proof -
    from that have "normalize_label (norm_enbez n) = ''8''"
      by (auto simp: dokumente_find_paragraph_find find_Some_iff n8)
    then show ?thesis using n8b n8c by auto
  qed
  show ?thesis
    using a b c e by (simp add: find_paragraph_find normalize_label_def)
qed

text \<open>A document with the paragraphs \<open>\<section> 8\<close> and \<open>\<section> 8b\<close>.\<close>

definition kstg :: LawSearch where
  "kstg = \<lparr>documents = \<lparr>builddate = None, doknr = None,
       normen = [paragraph_norm (SECT # '' 8'') [CP (P None [Str ''(1) Eins''] (Some ''(1) Eins''))] ''(1) Eins'',
                 paragraph_norm (SECT # '' 8b'') [CP (P None [Str ''(1) Zwei''] (Some ''(1) Zwei'')),
                                                  CP (P None [Str ''(2) Drei''] (Some ''(2) Drei''))]
                                                  ''(1) Zwei (2) Drei'']\<rparr>,
     law_code = ''KStG''\<rparr>"

theorem C5_paragraph_lookup_witness:
  "dokumente_find_paragraph (documents kstg) ''8''
     = Some (paragraph_norm (SECT # '' 8'') [CP (P None [Str ''(1) Eins''] (Some ''(1) Eins''))] ''(1) Eins'')
   \<and> norm_enbez (paragraph_norm (SECT # '' 8'') [CP (P None [Str ''(1) Eins''] (Some ''(1) Eins''))] ''(1) Eins'')
       \<noteq> SECT # '' 8b''
   \<and> find_paragraph kstg (SECT # '' 8b'') = find_paragraph kstg ''8b ''
   \<and> find_paragraph kstg ''8b '' \<noteq> None"
proof -
  let ?n = "paragraph_norm (SECT # '' 8'') [CP (P None [Str ''(1) Eins''] (Some ''(1) Eins''))] ''(1) Eins''"
  have h: "dokumente_find_paragraph (documents kstg) ''8'' = Some ?n"
    by code_simp
  have g: "find_paragraph kstg ''8b '' \<noteq> None"
    by code_simp
  from C5_paragraph_lookup [of "documents kstg" "''8''" ?n kstg] h g show ?thesis
    by blast
qed


subsection \<open>C6: section lookup within a paragraph\<close>

lemma section_loop_nth:
  "section_loop items c t =
     (if c < t \<and> t \<le> c + int (length (p_elements items))
      then Some (p_elements items ! nat (t - c - 1)) else None)"
proof (induction items c t rule: section_loop.induct)
  case (1 section_count target_section)
  then show ?case by simp
next
  case (2 p rest c t)
  show ?case
  proof (cases "c + 1 = t")
    case True
    then show ?thesis by auto
  next
    case False
    have "nat (t - c - 1) = Suc (nat (t - (c + 1) - 1))" if "c + 1 < t"
      using that by linarith
    with False 2 show ?thesis by auto
  qed
qed auto

lemma find_section_in_norm_nth:
  assumes "py_int section_num = Inr n"
  shows "find_section_in_norm self norm section_num =
     Inr (if 1 \<le> n \<and> n \<le> int (length (p_elements (norm_elements norm)))
          then Some (format_section self norm section_num (p_elements (norm_elements norm) ! nat (n - 1)))
          else None)"
  using assms
  by (auto simp: find_section_in_norm_def bind_err_def section_loop_nth)

lemma find_paragraph_section_loop_find:
  "find_paragraph_section_loop self q section_num ns =
     (case List.find (\<lambda>n. has_enbez n \<and> normalize_label (norm_enbez n) = q) ns of
        None \<Rightarrow> Inr None | Some norm \<Rightarrow> find_section_in_norm self norm section_num)"
  by (induction ns) auto

lemma find_paragraph_section_find:
  "find_paragraph_section self label section_num =
     (case dokumente_find_paragraph (documents self) label of
        None \<Rightarrow> Inr None | Some norm \<Rightarrow> find_section_in_norm self norm section_num)"
  by (simp add: find_paragraph_section_def dokumente_find_paragraph_find
       find_paragraph_section_loop_find get_paragraphen_def find_filter cong: rev_conj_cong)


lemma join_lines5:
  "join [CHR 0x0A] [a, b, c, d, e] = a @ [CHR 0x0A] @ b @ [CHR 0x0A] @ c @ [CHR 0x0A] @ d @ [CHR 0x0A] @ e"
  by simp

text \<open>
  C6: section lookup resolves the paragraph as paragraph lookup does, then walks the
  top-level content list of its text body counting only the \<open>P\<close> items, and returns
  the \<open>n\<close>-th of them (counted from 1), where \<open>n\<close> is the integer that \<open>int\<close> reads from
  the section argument: the returned string is a rule of 70 equals signs, the line
  \<open>law_code enbez Absatz section_num\<close>, a second rule, an empty line and the text of that
  \<open>P\<close> item (its raw text, or without one the joined text of its content). For every
  \<open>n\<close> greater than the number of top-level \<open>P\<close> items it returns not-found. When \<open>int\<close>
  rejects the section argument, the lookup raises if the norm has content and returns
  not-found if it has none.
\<close>

theorem C6_section_lookup:
  "find_paragraph_section self label section_num =
      (case dokumente_find_paragraph (documents self) label of
         None \<Rightarrow> Inr None | Some norm \<Rightarrow> find_section_in_norm self norm section_num)
   \<and> (py_int section_num = Inr n \<longrightarrow>
        find_section_in_norm self norm section_num =
          Inr (if 1 \<le> n \<and> n \<le> int (length (p_elements (norm_elements norm)))
               then Some (replicate 70 CHR ''='' @ [CHR 0x0A]
                          @ law_code self @ '' ''
                          @ (case metadaten norm of None \<Rightarrow> ''?''
                             | Some m \<Rightarrow> (case enbez m of None \<Rightarrow> ''None'' | Some e \<Rightarrow> e))
                          @ '' Absatz '' @ section_num @ [CHR 0x0A]
                          @ replicate 70 CHR ''='' @ [CHR 0x0A] @ [CHR 0x0A]
                          @ (if truthy (p_raw_text (p_elements (norm_elements norm) ! nat (n - 1)))
                             then the (p_raw_text (p_elements (norm_elements norm) ! nat (n - 1)))
                             else strip (join '' '' (p_text_parts
                                    (p_content (p_elements (norm_elements norm) ! nat (n - 1)))))))
               else None))
   \<and> (py_int section_num = Inr n \<and> int (length (p_elements (norm_elements norm))) < n \<longrightarrow>
        find_section_in_norm self norm section_num = Inr None)
   \<and> (py_int section_num = Inl e \<longrightarrow>
        find_section_in_norm self norm section_num =
          (if norm_elements norm = [] then Inr None else Inl e))"
proof (intro conjI impI)
  show "find_paragraph_section self label section_num =
      (case dokumente_find_paragraph (documents self) label of
         None \<Rightarrow> Inr None | Some norm \<Rightarrow> find_section_in_norm self norm section_num)"
    by (rule find_paragraph_section_find)
next
  assume "py_int section_num = Inr n"
  from find_section_in_norm_nth [OF this, of self norm]
  show "find_section_in_norm self norm section_num =
          Inr (if 1 \<le> n \<and> n \<le> int (length (p_elements (norm_elements norm)))
               then Some (replicate 70 CHR ''='' @ [CHR 0x0A]
                          @ law_code self @ '' ''
                          @ (case metadaten norm of None \<Rightarrow> ''?''
                             | Some m \<Rightarrow> (case enbez m of None \<Rightarrow> ''None'' | Some e \<Rightarrow> e))
                          @ '' Absatz '' @ section_num @ [CHR 0x0A]
                          @ replicate 70 CHR ''='' @ [CHR 0x0A] @ [CHR 0x0A]
                          @ (if truthy (p_raw_text (p_elements (norm_elements norm) ! nat (n - 1)))
                             then the (p_raw_text (p_elements (norm_elements norm) ! nat (n - 1)))
                             else strip (join '' '' (p_text_parts
                                    (p_content (p_elements (norm_elements norm) ! nat (n - 1)))))))
               else None)"
    by (simp only: format_section_def join_lines5 rule_line_def section_header_label_def
          extract_text_from_p_def append_Nil append_assoc)
next
  assume "py_int section_num = Inr n \<and> int (length (p_elements (norm_elements norm))) < n"
  then show "find_section_in_norm self norm section_num = Inr None"
    by (simp add: find_section_in_norm_nth)
next
  assume "py_int section_num = Inl e"
  then show "find_section_in_norm self norm section_num =
          (if norm_elements norm = [] then Inr None else Inl e)"
    by (simp add: find_section_in_norm_def bind_err_def)
qed

text \<open>Paragraph \<open>\<section> 8b\<close> of the example has two content paragraphs: section 3 is not
  found, sections 2 and 1 are returned with their headers. In the last norm the \<open>P\<close>
  item is the second item of the content list and has no raw text.\<close>

theorem C6_section_lookup_witness:
  "py_int ''3'' = Inr 3
   \<and> length (p_elements (norm_elements (normen (documents kstg) ! 1))) = 2
   \<and> find_section_in_norm kstg (normen (documents kstg) ! 1) ''3'' = Inr None
   \<and> find_paragraph_section kstg ''8b'' ''3'' = Inr None
   \<and> py_int ''2'' = Inr 2
   \<and> find_paragraph_section kstg ''8b'' ''2''
       = Inr (Some (replicate 70 CHR ''='' @ [CHR 0x0A] @ ''KStG '' @ [SECT] @ '' 8b Absatz 2''
                    @ [CHR 0x0A] @ replicate 70 CHR ''='' @ [CHR 0x0A, CHR 0x0A] @ ''(2) Drei''))
   \<and> find_paragraph_section kstg (SECT # '' 8b'') ''1''
       = Inr (Some (replicate 70 CHR ''='' @ [CHR 0x0A] @ ''KStG '' @ [SECT] @ '' 8b Absatz 1''
                    @ [CHR 0x0A] @ replicate 70 CHR ''='' @ [CHR 0x0A, CHR 0x0A] @ ''(1) Zwei''))
   \<and> find_section_in_norm kstg
        (paragraph_norm (SECT # '' 9'')
           [Str ''Vorspann'',
            CP (P None [Str ''Erster'', CFormat (FormatElement ''B'' None None (Some ''fetter'') []),
                        Str ''Satz''] None)] [])
        ''1''
       = Inr (Some (replicate 70 CHR ''='' @ [CHR 0x0A] @ ''KStG '' @ [SECT] @ '' 9 Absatz 1''
                    @ [CHR 0x0A] @ replicate 70 CHR ''='' @ [CHR 0x0A, CHR 0x0A]
                    @ ''Erster fetter Satz''))"
proof -
  let ?norm = "normen (documents kstg) ! 1"
  let ?n9 = "paragraph_norm (SECT # '' 9'')
           [Str ''Vorspann'',
            CP (P None [Str ''Erster'', CFormat (FormatElement ''B'' None None (Some ''fetter'') []),
                        Str ''Satz''] None)] []"
  have i3: "py_int ''3'' = Inr 3" by code_simp
  have i2: "py_int ''2'' = Inr 2" by code_simp
  have i1: "py_int ''1'' = Inr 1" by code_simp
  have len: "length (p_elements (norm_elements ?norm)) = 2" by code_simp
  have f: "dokumente_find_paragraph (documents kstg) ''8b'' = Some ?norm" by code_simp
  have f': "dokumente_find_paragraph (documents kstg) (SECT # '' 8b'') = Some ?norm" by code_simp
  from C6_section_lookup [of kstg "''8b''" "''3''" 3 ?norm] i3 len f
  have a: "find_section_in_norm kstg ?norm ''3'' = Inr None"
    and b: "find_paragraph_section kstg ''8b'' ''3'' = Inr None" by auto
  have v2: "(if 1 \<le> (2::int) \<and> 2 \<le> int (length (p_elements (norm_elements ?norm)))
               then Some (replicate 70 CHR ''='' @ [CHR 0x0A]
                          @ law_code kstg @ '' ''
                          @ (case metadaten ?norm of None \<Rightarrow> ''?''
                             | Some m \<Rightarrow> (case enbez m of None \<Rightarrow> ''None'' | Some e \<Rightarrow> e))
                          @ '' Absatz '' @ ''2'' @ [CHR 0x0A]
                          @ replicate 70 CHR ''='' @ [CHR 0x0A] @ [CHR 0x0A]
                          @ (if truthy (p_raw_text (p_elements (norm_elements ?norm) ! nat (2 - 1)))
                             then the (p_raw_text (p_elements (norm_elements ?norm) ! nat (2 - 1)))
                             else strip (join '' '' (p_text_parts
                                    (p_content (p_elements (norm_elements ?norm) ! nat (2 - 1)))))))
               else None)
        = Some (replicate 70 CHR ''='' @ [CHR 0x0A] @ ''KStG '' @ [SECT] @ '' 8b Absatz 2''
                    @ [CHR 0x0A] @ replicate 70 CHR ''='' @ [CHR 0x0A, CHR 0x0A] @ ''(2) Drei'')"
    by code_simp
  have c: "find_paragraph_section kstg ''8b'' ''2''
       = Inr (Some (replicate 70 CHR ''='' @ [CHR 0x0A] @ ''KStG '' @ [SECT] @ '' 8b Absatz 2''
                    @ [CHR 0x0A] @ replicate 70 CHR ''='' @ [CHR 0x0A, CHR 0x0A] @ ''(2) Drei''))"
    using C6_section_lookup [of kstg "''8b''" "''2''" 2 ?norm] i2 f v2 by simp
  have d: "find_paragraph_section kstg (SECT # '' 8b'') ''1''
       = Inr (Some (replicate 70 CHR ''='' @ [CHR 0x0A] @ ''KStG '' @ [SECT] @ '' 8b Absatz 1''
                    @ [CHR 0x0A] @ replicate 70 CHR ''='' @ [CHR 0x0A, CHR 0x0A] @ ''(1) Zwei''))"
    by code_simp
  have e: "find_section_in_norm kstg ?n9 ''1''
       = Inr (Some (replicate 70 CHR ''='' @ [CHR 0x0A] @ ''KStG '' @ [SECT] @ '' 9 Absatz 1''
                    @ [CHR 0x0A] @ replicate 70 CHR ''='' @ [CHR 0x0A, CHR 0x0A]
                    @ ''Erster fetter Satz''))"
    by code_simp
  from i3 i2 len a b c d e show ?thesis by blast
qed


subsection \<open>C10: a section argument that is not a number\<close>

text \<open>\<open>int\<close> accepts every non-empty run of at most 4300 digits.\<close>

lemma contains_hd: "contains s sub \<Longrightarrow> sub \<noteq> [] \<Longrightarrow> hd sub \<in> set s"
proof (induction s)
  case Nil
  then show ?case by (simp add: contains_def find_str_def)
next
  case (Cons c cs)
  then show ?case
    by (cases sub) (auto simp: contains_Cons)
qed

lemma py_int_digits:
  assumes "s \<noteq> []" and "list_all is_digit s" and "length s \<le> 4300"
  shows "py_int s = Inr (digits_value s)"
proof -
  obtain c cs where s: "s = c # cs" using assms(1) by (cases s) auto
  have all: "\<forall>x \<in> set s. is_digit x" using assms(2) by (simp add: list_all_iff)
  have dc: "is_digit c" using all s by simp
  have ns: "\<not> is_int_space c" using dc by (auto simp: is_digit_def is_int_space_def)
  have nsign: "c \<noteq> CHR ''-''" "c \<noteq> CHR ''+''" "c \<noteq> CHR ''_''"
    using dc by (auto simp: is_digit_def code_def)
  have us: "CHR ''_'' \<notin> set s" using all by (auto simp: is_digit_def code_def)
  have t: "dropWhile is_int_space s = s" using ns s by simp
  have tw: "takeWhile is_digit_or_us s = s" using all by (simp add: is_digit_or_us_def)
  have dw: "dropWhile is_digit_or_us s = []" using all by (simp add: is_digit_or_us_def)
  have fl: "filter is_digit s = s" using all by simp
  have last: "last s \<noteq> CHR ''_''" using us assms(1) last_in_set by metis
  have nc: "\<not> contains s ''__''" using contains_hd[of s "''__''"] us by auto
  show ?thesis
    unfolding py_int_def Let_def t
    using tw dw fl last nc nsign assms(3) s
    by (simp add: int_max_str_digits_def)
qed

text \<open>
  C10: for some input, a section string that is not a digit run, queried against an
  existing paragraph label, makes \<open>find_paragraph_section\<close> raise instead of returning
  not-found: on the example, section \<open>abc\<close> of paragraph \<open>8\<close> raises \<open>ValueError\<close>.
  Section lookup raises nothing when \<open>int\<close> accepts the section argument, in
  particular when it is a run of digits, and only then: whenever \<open>int\<close> rejects the
  argument, the lookup of paragraph \<open>8\<close> of the example raises.
\<close>

theorem C10_section_int_conversion:
  "find_paragraph_section kstg ''8'' ''abc'' = Inl ValueError
   \<and> (py_int section_num = Inr n \<longrightarrow> find_paragraph_section self label section_num \<noteq> Inl e)
   \<and> (section_num \<noteq> [] \<and> list_all is_digit section_num \<and> length section_num \<le> 4300 \<longrightarrow>
        find_paragraph_section self label section_num \<noteq> Inl e)
   \<and> (py_int section_num = Inl e \<longrightarrow> find_paragraph_section kstg ''8'' section_num = Inl e)"
proof (intro conjI impI)
  show "find_paragraph_section kstg ''8'' ''abc'' = Inl ValueError"
    by code_simp
next
  assume "py_int section_num = Inr n"
  then show "find_paragraph_section self label section_num \<noteq> Inl e"
    by (auto simp: find_paragraph_section_find find_section_in_norm_nth split: option.splits)
next
  assume "section_num \<noteq> [] \<and> list_all is_digit section_num \<and> length section_num \<le> 4300"
  then have "py_int section_num = Inr (digits_value section_num)"
    by (simp add: py_int_digits)
  then show "find_paragraph_section self label section_num \<noteq> Inl e"
    by (auto simp: find_paragraph_section_find find_section_in_norm_nth split: option.splits)
next
  assume e: "py_int section_num = Inl e"
  have f: "dokumente_find_paragraph (documents kstg) ''8'' = Some (normen (documents kstg) ! 0)"
    by code_simp
  have ne: "norm_elements (normen (documents kstg) ! 0) \<noteq> []"
    by code_simp
  show "find_paragraph_section kstg ''8'' section_num = Inl e"
    using e f ne by (simp add: find_paragraph_section_find find_section_in_norm_def bind_err_def)
qed

theorem C10_section_int_conversion_witness:
  "py_int ''abc'' = Inl ValueError
   \<and> find_paragraph_section kstg ''8'' ''abc'' = Inl ValueError
   \<and> py_int ''1'' = Inr 1
   \<and> find_paragraph_section kstg ''8'' ''1'' \<noteq> Inl ValueError
   \<and> find_paragraph_section kstg ''9'' ''1'' \<noteq> Inl ValueError"
proof -
  have a: "py_int ''abc'' = Inl ValueError" by code_simp
  have b: "py_int ''1'' = Inr 1" by code_simp
  have d: "''1'' \<noteq> [] \<and> list_all is_digit ''1'' \<and> length ''1'' \<le> 4300" by code_simp
  from C10_section_int_conversion [of "''abc''" 0 kstg "''8''" ValueError] a
  have c1: "find_paragraph_section kstg ''8'' ''abc'' = Inl ValueError" by blast
  from C10_section_int_conversion [of "''1''" 1 kstg "''8''" ValueError] b
  have c2: "find_paragraph_section kstg ''8'' ''1'' \<noteq> Inl ValueError" by blast
  from C10_section_int_conversion [of "''1''" 1 kstg "''9''" ValueError] d
  have c3: "find_paragraph_section kstg ''9'' ''1'' \<noteq> Inl ValueError" by blast
  from a b c1 c2 c3 show ?thesis by blast
qed


subsection \<open>C7: full-text search\<close>

text \<open>The results are those of the norms with a label, a non-empty text and a hit, in
  document order.\<close>

lemma search_loop_map_filter:
  "search_loop term cs ns results =
     results @ List.map_filter (search_hit term cs)
                 (filter (\<lambda>n. has_enbez n \<and> extract_text_from_norm n \<noteq> []) ns)"
  by (induction ns arbitrary: results) (auto simp: List.map_filter_simps split: option.splits)

lemma search_term_map_filter:
  "search_term self term cs =
     List.map_filter (search_hit term cs)
       (filter (\<lambda>n. has_enbez n \<and> extract_text_from_norm n \<noteq> []) (normen (documents self)))"
  by (simp add: search_term_def search_loop_map_filter get_paragraphen_def cong: rev_conj_cong)

text \<open>
  C7: the context of a search result is to extend at most 100 characters before and
  at most 100 characters after the first match, with an ellipsis on a side exactly
  when the text was cut off there. The code finds the offset of the term in the
  lower-cased text and cuts the context out of the text itself at that offset. The two
  differ when lower-casing changes a length. On the text U+0130, \<open>x\<close>, 200 times \<open>y\<close> the
  search for \<open>x\<close> returns U+0130, \<open>x\<close>, 101 times \<open>y\<close> and an ellipsis: 101 characters
  after the match. On the text 101 times U+0130, \<open>x\<close> it returns an ellipsis alone: the
  context misses the match.
\<close>

theorem C7_context_beyond_window:
  "context_window [0x78] False ([0x130, 0x78] @ replicate 200 0x79)
     = Some ([0x130, 0x78] @ replicate 101 0x79 @ ustr ''...'')
   \<and> context_window [0x78] False (replicate 101 0x130 @ [0x78]) = Some (ustr ''...'')"
  by code_simp



subsection \<open>Sequencing of computations that may raise\<close>

lemma bind_err_Inr [simp]: "bind_err (Inr x) f = f x"
  by (simp add: bind_err_def)

lemma bind_err_Inl [simp]: "bind_err (Inl e) f = Inl e"
  by (simp add: bind_err_def)

lemma bind_err_assoc:
  "bind_err (bind_err m f) g = bind_err m (\<lambda>x. bind_err (f x) g)"
  by (cases m) simp_all

lemma bind_err_return: "bind_err m (\<lambda>x. Inr x) = m"
  by (cases m) simp_all


subsection \<open>C9: pairing terms and descriptions of a definition list\<close>

text \<open>
  The pairs of a definition list, read off the sequence of its \<open>DT\<close> and \<open>DD\<close> children:
  a term directly followed by a description is one pair, and an element that is not
  part of such a pair is passed over. Children with any other tag are not looked at.
\<close>

definition is_dt_or_dd :: "Element \<Rightarrow> bool" where
  "is_dt_or_dd c = (el_tag c = ''DT'' \<or> el_tag c = ''DD'')"

fun dt_dd_pairs :: "Element list \<Rightarrow> (Element \<times> Element) list" where
  "dt_dd_pairs (a # b # rest) =
     (if el_tag a = ''DT'' \<and> el_tag b = ''DD'' then (a, b) # dt_dd_pairs rest
      else dt_dd_pairs (b # rest))"
| "dt_dd_pairs [a] = []"
| "dt_dd_pairs [] = []"

text \<open>The item built for a pair: the term and the parsed description.\<close>

definition make_item :: "Element \<times> Element \<Rightarrow> error + ContentElement DLItem" where
  "make_item p = bind_err (parse_dd (snd p)) (\<lambda>dd. Inr (DLItem (parse_dt (fst p)) dd))"

lemma make_item_pair:
  "make_item (a, b) = bind_err (parse_dd b) (\<lambda>dd. Inr (DLItem (parse_dt a) dd))"
  by (simp add: make_item_def del: parse_dd.simps)

lemma dt_dd_pairs_skip:
  "el_tag c \<noteq> ''DT'' \<Longrightarrow> dt_dd_pairs (c # xs) = dt_dd_pairs xs"
  by (cases xs) auto

text \<open>The loop with a pending term behaves as if the term's element were put back in
  front of the children still to visit.\<close>

fun pending_list :: "Element option \<Rightarrow> Element list" where
  "pending_list None = []"
| "pending_list (Some t) = [t]"

lemma parse_dl_loop_pairs:
  "pending = None \<or> el_tag (the pending) = ''DT'' \<Longrightarrow>
   parse_dl_loop cs items (map_option parse_dt pending) =
     bind_err (for_each make_item (dt_dd_pairs (pending_list pending @ filter is_dt_or_dd cs)))
       (\<lambda>new. Inr (items @ new))"
proof (induction cs arbitrary: items pending)
  case Nil
  then show ?case by (cases pending) auto
next
  case (Cons c cs)
  show ?case
  proof (cases "el_tag c = ''DT''")
    case True
    have "parse_dl_loop (c # cs) items (map_option parse_dt pending)
            = parse_dl_loop cs items (map_option parse_dt (Some c))"
      using True by simp
    also have "\<dots> = bind_err (for_each make_item (dt_dd_pairs (pending_list (Some c) @ filter is_dt_or_dd cs)))
       (\<lambda>new. Inr (items @ new))"
      using True by (intro Cons.IH) simp
    also have "dt_dd_pairs (pending_list (Some c) @ filter is_dt_or_dd cs)
            = dt_dd_pairs (pending_list pending @ filter is_dt_or_dd (c # cs))"
      using True Cons.prems by (cases pending) (auto simp: is_dt_or_dd_def)
    finally show ?thesis .
  next
    case notDT: False
    show ?thesis
    proof (cases "el_tag c = ''DD''")
      case True
      show ?thesis
      proof (cases pending)
        case None
        have "parse_dl_loop (c # cs) items (map_option parse_dt pending)
                = parse_dl_loop cs items (map_option parse_dt None)"
          using True notDT None by simp
        also have "\<dots> = bind_err (for_each make_item (dt_dd_pairs (pending_list None @ filter is_dt_or_dd cs)))
           (\<lambda>new. Inr (items @ new))"
          by (intro Cons.IH) simp
        also have "dt_dd_pairs (pending_list None @ filter is_dt_or_dd cs)
                = dt_dd_pairs (pending_list pending @ filter is_dt_or_dd (c # cs))"
          using True notDT None by (simp add: is_dt_or_dd_def dt_dd_pairs_skip)
        finally show ?thesis .
      next
        case (Some t)
        with Cons.prems have t: "el_tag t = ''DT''" by simp
        have ih: "parse_dl_loop cs its (map_option parse_dt None) =
            bind_err (for_each make_item (dt_dd_pairs (pending_list None @ filter is_dt_or_dd cs)))
              (\<lambda>new. Inr (its @ new))" for its
          by (intro Cons.IH) simp
        have pairs: "dt_dd_pairs (pending_list pending @ filter is_dt_or_dd (c # cs))
                = (t, c) # dt_dd_pairs (filter is_dt_or_dd cs)"
          using True t Some by (simp add: is_dt_or_dd_def)
        have lhs: "parse_dl_loop (c # cs) items (map_option parse_dt pending)
                = bind_err (parse_dd c) (\<lambda>dd.
                    parse_dl_loop cs (items @ [DLItem (parse_dt t) dd]) None)"
          using True notDT Some by (simp del: parse_dd.simps)
        show ?thesis
        proof (cases "parse_dd c")
          case (Inl e)
          then show ?thesis
            unfolding lhs pairs by (simp add: make_item_pair del: parse_dd.simps)
        next
          case (Inr dd)
          show ?thesis
          proof (cases "for_each make_item (dt_dd_pairs (filter is_dt_or_dd cs))")
            case (Inl e)
            with Inr show ?thesis
              unfolding lhs pairs using ih[of "items @ [DLItem (parse_dt t) dd]"]
              by (simp add: make_item_pair del: parse_dd.simps)
          next
            case inr: (Inr new)
            with Inr show ?thesis
              unfolding lhs pairs using ih[of "items @ [DLItem (parse_dt t) dd]"]
              by (simp add: make_item_pair del: parse_dd.simps)
          qed
        qed
      qed
    next
      case False
      have "parse_dl_loop (c # cs) items (map_option parse_dt pending)
              = parse_dl_loop cs items (map_option parse_dt pending)"
        using False notDT by simp
      also have "\<dots> = bind_err (for_each make_item (dt_dd_pairs (pending_list pending @ filter is_dt_or_dd cs)))
         (\<lambda>new. Inr (items @ new))"
        using Cons.prems by (intro Cons.IH)
      also have "filter is_dt_or_dd cs = filter is_dt_or_dd (c # cs)"
        using False notDT by (simp add: is_dt_or_dd_def)
      finally show ?thesis .
    qed
  qed
qed

text \<open>
  A list whose children are an orphan description, two terms in a row, a line break,
  a description, a second description and a trailing term; and a description whose
  content cannot be parsed (the \<open>cols\<close> attribute of its table group is not a number).
\<close>

definition dl_example :: "Element list" where
  "dl_example =
     [Element ''DD'' [(''ID'', ''d0'')] None None [],
      Element ''DT'' [] (Some ''a'') None [],
      Element ''DT'' [] (Some ''b'') None [],
      Element ''BR'' [] None None [],
      Element ''DD'' [(''ID'', ''c'')] None None [Element ''LA'' [] (Some ''text'') None []],
      Element ''DD'' [(''ID'', ''e'')] None None [],
      Element ''DT'' [] (Some ''f'') None []]"

definition bad_dd :: Element where
  "bad_dd = Element ''DD'' [] None None
     [Element ''Revision'' [] None None
        [Element ''table'' [] None None
           [Element ''tgroup'' [(''cols'', ''x'')] None None []]]]"

text \<open>
  C9: \<open>parse_dl\<close> scans the children in order. A \<open>DT\<close> sets the pending term; the next
  \<open>DD\<close> pairs with it to form exactly one item and clears the pending term. A term
  followed by another term, and a description with no pending term, are dropped: no
  item is produced for them and they raise no error. So the items of the list are
  exactly those of the pairs (term, description directly after it) of its \<open>DT\<close>/\<open>DD\<close>
  children, in order; an error can only come from parsing the description of a pair.
\<close>

theorem C9_definition_list_pairing:
  "parse_dl elem =
     bind_err (for_each make_item (dt_dd_pairs (filter is_dt_or_dd (el_children elem))))
       (\<lambda>items. Inr (DL (get_attr elem [''ID'', ''Id'', ''id'']) (get elem ''Indent'')
                          (get elem ''Font'') (get elem ''Type'') items))"
  using parse_dl_loop_pairs[of None "el_children elem" "[]"]
  by (simp add: bind_err_assoc)

text \<open>On the example only the second term and the description after it are paired; the
  unparsable description raises nothing as an orphan and raises once it follows a term.\<close>

theorem C9_definition_list_pairing_witness:
  "parse_dl (Element ''DL'' [] None None dl_example)
     = Inr (DL None None None None
         [DLItem \<lparr>dt_id = None, dt_text = Some ''b''\<rparr>
                 (DD (Some ''c'') (Some (LA None None None (Some ''text'') [])) [])])
   \<and> parse_dl (Element ''DL'' [] None None [bad_dd]) = Inr (DL None None None None [])
   \<and> parse_dl (Element ''DL'' [] None None [Element ''DT'' [] (Some ''a'') None [], bad_dd])
       = Inl ValueError"
proof -
  have a: "parse_dl (Element ''DL'' [] None None dl_example)
     = Inr (DL None None None None
         [DLItem \<lparr>dt_id = None, dt_text = Some ''b''\<rparr>
                 (DD (Some ''c'') (Some (LA None None None (Some ''text'') [])) [])])"
    unfolding C9_definition_list_pairing [of "Element ''DL'' [] None None dl_example"]
    by code_simp
  have b: "parse_dl (Element ''DL'' [] None None [bad_dd]) = Inr (DL None None None None [])"
    unfolding C9_definition_list_pairing [of "Element ''DL'' [] None None [bad_dd]"]
    by code_simp
  have c: "parse_dl (Element ''DL'' [] None None [Element ''DT'' [] (Some ''a'') None [], bad_dd])
       = Inl ValueError"
    unfolding C9_definition_list_pairing
      [of "Element ''DL'' [] None None [Element ''DT'' [] (Some ''a'') None [], bad_dd]"]
    by code_simp
  from a b c show ?thesis by blast
qed


subsection \<open>C8: the tail text of a child\<close>

text \<open>The child as the dispatch on its tag sees it: without its tail.\<close>

definition without_tail :: "Element \<Rightarrow> Element" where
  "without_tail e = Element (el_tag e) (el_attrib e) (el_text e) None (el_children e)"

text \<open>
  The node for the tail of a child, as the specification words it: the normalized tail
  as a text node, unless there is no tail text or the normalized tail is exactly one
  space.
\<close>

definition tail_nodes :: "Element \<Rightarrow> ContentElement list" where
  "tail_nodes child =
     (case el_tail child of
        None \<Rightarrow> []
      | Some tail \<Rightarrow>
          if tail = [] \<or> normalize_whitespace tail = '' '' then []
          else [Str (normalize_whitespace tail)])"

text \<open>The nodes a child contributes: its own, then the node of its tail.\<close>

definition child_nodes :: "Element \<Rightarrow> error + ContentElement list" where
  "child_nodes child =
     bind_err (parse_content_loop [without_tail child] [])
       (\<lambda>nodes. Inr (nodes @ tail_nodes child))"

lemma replace_ne_nonempty:
  "new \<noteq> [] \<Longrightarrow> s \<noteq> [] \<Longrightarrow> replace_ne old new s \<noteq> []"
  by (cases s) auto

lemma replace_nonempty: "new \<noteq> [] \<Longrightarrow> s \<noteq> [] \<Longrightarrow> replace s old new \<noteq> []"
  by (simp add: replace_def replace_ne_nonempty)

lemma collapse_spaces_nonempty: "s \<noteq> [] \<Longrightarrow> collapse_spaces s \<noteq> []"
proof (induction s rule: collapse_spaces.induct)
  case (1 t)
  then show ?case
    by (subst collapse_spaces.simps) (simp add: replace_nonempty)
qed

lemma normalize_whitespace_nonempty: "s \<noteq> [] \<Longrightarrow> normalize_whitespace s \<noteq> []"
  by (simp add: normalize_whitespace_def collapse_spaces_nonempty replace_nonempty)

lemma without_tail_sel [simp]:
  "el_tag (without_tail e) = el_tag e"
  "el_attrib (without_tail e) = el_attrib e"
  "el_text (without_tail e) = el_text e"
  "el_tail (without_tail e) = None"
  "el_children (without_tail e) = el_children e"
  by (simp_all add: without_tail_def)

lemma get_without_tail: "get (without_tail e) = get e"
  by (rule ext) (simp add: get_def)

lemma without_tail_get [simp]:
  "get (without_tail e) n = get e n"
  "get_default (without_tail e) n d = get_default e n d"
  "get_attr (without_tail e) ns = get_attr e ns"
  "findall (without_tail e) t = findall e t"
  "find (without_tail e) t = find e t"
  "is_rec_sup (without_tail e) = is_rec_sup e"
  by (simp_all add: get_without_tail get_default_def get_attr_def findall_def find_def is_rec_sup_def)

lemma without_tail_leaf [simp]:
  "extract_raw_text (without_tail e) = extract_raw_text e"
  "parse_img (without_tail e) = parse_img e"
  "parse_file_element (without_tail e) = parse_file_element e"
  "parse_fnarea (without_tail e) = parse_fnarea e"
  "parse_kommentar (without_tail e) = parse_kommentar e"
  "parse_pre (without_tail e) = parse_pre e"
  by (simp_all add: parse_img_def parse_file_element_def parse_fnarea_def parse_kommentar_def
        parse_pre_def)

lemma without_tail_rec [simp]:
  "parse_p (without_tail e) = parse_p e"
  "parse_dl (without_tail e) = parse_dl e"
  "parse_table (without_tail e) = parse_table e"
  "parse_toc (without_tail e) = parse_toc e"
  "parse_revision (without_tail e) = parse_revision e"
  "parse_format_element (without_tail e) = parse_format_element e"
  by simp_all

lemmas rec_simps = parse_p.simps parse_dl.simps parse_table.simps parse_toc.simps
  parse_revision.simps parse_format_element.simps

lemma truthy_None: "truthy None = False"
  by (simp add: truthy_def)

lemma tail_step:
  "(if truthy (el_tail child) then
      (let tail = normalize_whitespace (the (el_tail child))
       in if tail \<noteq> [] \<and> tail \<noteq> '' '' then es @ [Str tail] else es)
    else es) = es @ tail_nodes child"
  by (auto simp: truthy_def tail_nodes_def Let_def normalize_whitespace_nonempty
           split: option.splits)

lemma parse_content_loop_step:
  "parse_content_loop (child # rest) elements =
     bind_err (parse_content_loop [without_tail child] elements)
       (\<lambda>es. parse_content_loop rest (es @ tail_nodes child))"
  apply (subst parse_content_loop.simps(2))
  apply (subst parse_content_loop.simps(2))
  apply (simp only: tail_step parse_content_loop.simps(1) truthy_None if_False bind_err_return
           without_tail_sel without_tail_get without_tail_leaf without_tail_rec)
  done

lemma parse_content_loop_prefix:
  "parse_content_loop [child] elements =
     bind_err (parse_content_loop [child] []) (\<lambda>nodes. Inr (elements @ nodes))"
  by (simp add: bind_err_assoc Let_def del: rec_simps)

text \<open>
  C8: when the children of an element are parsed, the tail of each child is appended
  after it as a normalized text node, unless the normalized tail is exactly a single
  space, which is dropped (as is an absent or empty tail). Every other tail is kept,
  also one whose normalized form is whitespace only but is not the single space. The
  emitted sequence is the nodes present before the loop, followed child by child by
  the child's own nodes and the node of its tail.
\<close>

theorem C8_tail_text:
  "parse_content_loop children elements =
     bind_err (for_each child_nodes children) (\<lambda>parts. Inr (elements @ concat parts))"
proof (induction children arbitrary: elements)
  case Nil
  show ?case by simp
next
  case (Cons child rest)
  have "parse_content_loop (child # rest) elements =
     bind_err (parse_content_loop [without_tail child] elements)
       (\<lambda>es. parse_content_loop rest (es @ tail_nodes child))"
    by (rule parse_content_loop_step)
  also have "\<dots> = bind_err (parse_content_loop [without_tail child] [])
       (\<lambda>nodes. parse_content_loop rest ((elements @ nodes) @ tail_nodes child))"
    by (subst parse_content_loop_prefix) (simp add: bind_err_assoc del: parse_content_loop.simps)
  also have "\<dots> = bind_err (parse_content_loop [without_tail child] [])
       (\<lambda>nodes. bind_err (for_each child_nodes rest)
          (\<lambda>parts. Inr (((elements @ nodes) @ tail_nodes child) @ concat parts)))"
    by (simp only: Cons.IH)
  also have "\<dots> = bind_err (for_each child_nodes (child # rest))
       (\<lambda>parts. Inr (elements @ concat parts))"
    by (simp add: child_nodes_def bind_err_assoc del: parse_content_loop.simps)
  finally show ?case .
qed

text \<open>
  A paragraph with five children. The tail of the first (two spaces, a line feed, a
  tab) normalizes to one space and is dropped; the tail of the second (two vertical
  tabs) is whitespace only and is kept; the tail of the third is kept with its outer
  spaces and its inner spaces collapsed; the fourth has an empty tail; the tail of the
  fifth is a no-break space and is kept.
\<close>

definition tail_example :: "Element list" where
  "tail_example =
     [Element ''B'' [] (Some ''erste'') (Some [CHR 0x20, CHR 0x20, CHR 0x0A, CHR 0x09]) [],
      Element ''I'' [] (Some ''zweite'') (Some [CHR 0x0B, CHR 0x0B]) [],
      Element ''U'' [] (Some ''dritte'') (Some '' und  der '') [],
      Element ''BR'' [] None (Some []) [],
      Element ''BR'' [] None (Some [CHR 0xA0]) []]"

theorem C8_tail_text_witness:
  "parse_content_elements (Element ''P'' [] (Some ''Der '') None tail_example)
     = Inr [Str ''Der'',
            CFormat (FormatElement ''B'' None None (Some ''erste'') [Str ''erste'']),
            CFormat (FormatElement ''I'' None None (Some ''zweite'') [Str ''zweite'']),
            Str [CHR 0x0B, CHR 0x0B],
            CFormat (FormatElement ''U'' None None (Some ''dritte'') [Str ''dritte'']),
            Str '' und der '',
            Str [CHR 0x0A],
            Str [CHR 0x0A],
            Str [CHR 0xA0]]"
  unfolding parse_content_elements.simps C8_tail_text
  by code_simp


subsection \<open>C1: the number of an Absatz\<close>

text \<open>
  C1: the parser is to read the number of an Absatz off the start of the raw text of a
  \<open>P\<close> element (\<open>(1)\<close>, \<open>(2a)\<close>) and to store it on the node, leaving the raw text as
  it is. \<open>parse_p\<close> fills the three fields of \<open>P\<close>, the identifier, the content and the
  raw text, and nothing else: on \<open>(1) Text\<close> and on \<open>(2a) Text\<close> the node carries the
  text with its prefix and no number.
\<close>

theorem C1_no_absatz_number:
  "parse_p (Element ''P'' [] (Some ''(1) Text'') None [])
     = Inr (P None [Str ''(1) Text''] (Some ''(1) Text''))
   \<and> parse_p (Element ''P'' [(''ID'', ''p2'')] (Some ''(2a) Text'') None [])
     = Inr (P (Some ''p2'') [Str ''(2a) Text''] (Some ''(2a) Text''))"
  by code_simp

end
